theory Spec2Isabelle
  imports
    Complex_Main
    "HOL-Library.AList"
    "HOL-Library.Sublist"
    "HOL-Library.Char_ord"
    "HOL-Library.List_Lexorder"
begin

section \<open>Deal pipelines of dealmind-backend: a shallow embedding\<close>

text \<open>
  The development follows \<^verbatim>\<open>app/agents/monitoring.py\<close>, \<^verbatim>\<open>app/agents/proposal.py\<close>,
  \<^verbatim>\<open>app/agents/qualification.py\<close> and \<^verbatim>\<open>app/agents/orchestrator.py\<close>.
  A Python string is the list of the bytes of its UTF-8 encoding. A finite Python float is
  given by a rational that denotes it, the decimal Python prints for it (0.4 for the double
  nearest to 0.4); comparing it with a decimal literal of the source is comparing the
  rationals, and a product is computed as the code computes it, in double precision
  (\<open>float_mul\<close>). Python exceptions are values of the type \<open>exn\<close>, and a function that may
  raise returns \<open>exn + 'a\<close>.
\<close>

subsection \<open>Python built-ins used by the stages\<close>

datatype exn =
    JSONDecodeError
  | IndexError
  | AttributeError
  | TypeError
  | OverflowError
  | ValueError
  | GraphRecursionError
  | KeyError
  | OtherError string

definition lower_char :: "char \<Rightarrow> char" where
  "lower_char c =
     (let n = (of_char c :: nat) in if 65 \<le> n \<and> n \<le> 90 then char_of (n + 32) else c)"

text \<open>Lower-casing of the ASCII capitals, which is \<^verbatim>\<open>s.lower()\<close> for ASCII text. For the
  test \<^verbatim>\<open>"competitor" in signal.lower()\<close> of the alert stage it gives the answer of
  \<^verbatim>\<open>str.lower\<close> on every string: the only code points beyond ASCII whose lower case holds an
  ASCII letter are U+212A (which gives k) and U+0130 (which gives i followed by U+0307),
  and the word has no k and no i followed by U+0307.\<close>

definition lower :: "string \<Rightarrow> string" where
  "lower s = map lower_char s"

fun startswith :: "string \<Rightarrow> string \<Rightarrow> bool" where
  "startswith s [] = True"
| "startswith [] (p # ps) = False"
| "startswith (c # cs) (p # ps) = (c = p \<and> startswith cs ps)"

text \<open>\<^verbatim>\<open>sub in s\<close> for strings.\<close>

fun contains :: "string \<Rightarrow> string \<Rightarrow> bool" where
  "contains sub [] = (sub = [])"
| "contains sub (c # cs) = (startswith (c # cs) sub \<or> contains sub cs)"

text \<open>The white space of \<^verbatim>\<open>str.split()\<close> and \<^verbatim>\<open>str.strip()\<close> (the code points for which
  \<^verbatim>\<open>str.isspace\<close> holds), in UTF-8: U+0009..U+000D, U+001C..U+0020, U+0085, U+00A0,
  U+1680, U+2000..U+200A, U+2028, U+2029, U+202F, U+205F and U+3000.\<close>

definition whitespace :: "string list" where
  "whitespace =
     map (\<lambda>c. [c])
       [CHR 0x09, CHR 0x0A, CHR 0x0B, CHR 0x0C, CHR 0x0D, CHR 0x1C, CHR 0x1D, CHR 0x1E,
        CHR 0x1F, CHR 0x20]
     @ [[CHR 0xC2, CHR 0x85], [CHR 0xC2, CHR 0xA0], [CHR 0xE1, CHR 0x9A, CHR 0x80]]
     @ map (\<lambda>c. [CHR 0xE2, CHR 0x80, c])
         [CHR 0x80, CHR 0x81, CHR 0x82, CHR 0x83, CHR 0x84, CHR 0x85, CHR 0x86, CHR 0x87,
          CHR 0x88, CHR 0x89, CHR 0x8A, CHR 0xA8, CHR 0xA9, CHR 0xAF]
     @ [[CHR 0xE2, CHR 0x81, CHR 0x9F], [CHR 0xE3, CHR 0x80, CHR 0x80]]"

text \<open>The number of bytes of the character of \<open>codes\<close> a string starts with, 0 when it starts
  with none.\<close>

definition space_at :: "string list \<Rightarrow> string \<Rightarrow> nat" where
  "space_at codes s = (case find (startswith s) codes of None \<Rightarrow> 0 | Some w \<Rightarrow> length w)"

text \<open>\<^verbatim>\<open>s.split()\<close>: the maximal runs of characters that are not white space, in order;
  \<open>skip\<close> counts the bytes of a white-space character still to pass.\<close>

fun words_from :: "nat \<Rightarrow> string \<Rightarrow> string \<Rightarrow> string list" where
  "words_from skip cur [] = (if cur = [] then [] else [cur])"
| "words_from (Suc k) cur (c # cs) = words_from k cur cs"
| "words_from 0 cur (c # cs) =
     (case space_at whitespace (c # cs) of
        0 \<Rightarrow> words_from 0 (cur @ [c]) cs
      | Suc k \<Rightarrow> (if cur = [] then words_from k [] cs else cur # words_from k [] cs))"

definition split :: "string \<Rightarrow> string list" where
  "split s = words_from 0 [] s"

fun lstrip_from :: "string list \<Rightarrow> nat \<Rightarrow> string \<Rightarrow> string" where
  "lstrip_from codes skip [] = []"
| "lstrip_from codes (Suc k) (c # cs) = lstrip_from codes k cs"
| "lstrip_from codes 0 (c # cs) =
     (case space_at codes (c # cs) of
        0 \<Rightarrow> c # cs
      | Suc k \<Rightarrow> lstrip_from codes k cs)"

text \<open>\<^verbatim>\<open>s.strip()\<close>: the white space at both ends removed (at the end, read backwards).\<close>

definition strip :: "string \<Rightarrow> string" where
  "strip s = rev (lstrip_from (map rev whitespace) 0 (rev (lstrip_from whitespace 0 s)))"

text \<open>\<^verbatim>\<open>len(s)\<close>: the number of code points, that is of the bytes that do not continue a
  character.\<close>

definition len :: "string \<Rightarrow> nat" where
  "len s = length (filter (\<lambda>c. \<not> (128 \<le> (of_char c :: nat) \<and> (of_char c :: nat) < 192)) s)"

text \<open>\<^verbatim>\<open>s[:n]\<close>: the first \<open>n\<close> code points, each with the bytes that continue it.\<close>

fun slice_to :: "nat \<Rightarrow> string \<Rightarrow> string" where
  "slice_to n [] = []"
| "slice_to n (c # cs) =
     (if 128 \<le> (of_char c :: nat) \<and> (of_char c :: nat) < 192 then c # slice_to n cs
      else (case n of 0 \<Rightarrow> [] | Suc k \<Rightarrow> c # slice_to k cs))"

text \<open>\<^verbatim>\<open>sep.join(xs)\<close>.\<close>

fun join :: "string \<Rightarrow> string list \<Rightarrow> string" where
  "join sep [] = []"
| "join sep [x] = x"
| "join sep (x # y # ys) = x @ sep @ join sep (y # ys)"

fun digits :: "nat \<Rightarrow> string" where
  "digits n =
     (if n < 10 then [char_of (48 + n)] else digits (n div 10) @ [char_of (48 + n mod 10)])"

text \<open>\<^verbatim>\<open>str(i)\<close> for an int.\<close>

definition str_int :: "int \<Rightarrow> string" where
  "str_int i = (if i < 0 then CHR ''-'' # digits (nat (- i)) else digits (nat i))"

text \<open>A Python float: a finite value, an infinity or NaN.\<close>

datatype pyfloat = Finite rat | PosInf | NegInf | NaN

definition pow2 :: "int \<Rightarrow> rat" where
  "pow2 e = (if 0 \<le> e then 2 ^ nat e else 1 / 2 ^ nat (- e))"

function bit_length :: "int \<Rightarrow> int" where
  "bit_length n = (if n \<le> 0 then 0 else 1 + bit_length (n div 2))"
  by auto
termination
  by (relation "measure nat") auto

text \<open>The exponent \<open>e\<close> with \<open>2 ^ e \<le> a < 2 ^ (e + 1)\<close>, for a positive \<open>a\<close>.\<close>

definition binade :: "rat \<Rightarrow> int" where
  "binade a =
     (case quotient_of a of
        (p, q) \<Rightarrow>
          (let e = bit_length p - bit_length q
           in if pow2 e \<le> a then e else e - 1))"

definition round_half_even :: "rat \<Rightarrow> int" where
  "round_half_even x =
     (let f = \<lfloor>x\<rfloor>; r = x - of_int f
      in if r < 1 / 2 then f else if 1 / 2 < r then f + 1 else if even f then f else f + 1)"

text \<open>The double nearest to a rational (IEEE 754 binary64, ties to even): 53 significant
  bits, exponents from -1022 with gradual underflow, overflow to an infinity. It is the
  float a decimal literal or a JSON number denotes, and the rounding of every operation.\<close>

definition round_double :: "rat \<Rightarrow> pyfloat" where
  "round_double x =
     (if x = 0 then Finite 0
      else
        (let a = \<bar>x\<bar>;
             q = max (binade a) (- 1022) - 52;
             m = round_half_even (a / pow2 q)
         in if 971 < q \<or> (q = 971 \<and> m = 9007199254740992)
            then (if 0 < x then PosInf else NegInf)
            else Finite (if 0 < x then of_int m * pow2 q else - (of_int m * pow2 q))))"

fun float_sign :: "pyfloat \<Rightarrow> int" where
  "float_sign (Finite x) = (if 0 < x then 1 else if x < 0 then - 1 else 0)"
| "float_sign PosInf = 1"
| "float_sign NegInf = - 1"
| "float_sign NaN = 0"

text \<open>\<^verbatim>\<open>a * b\<close> on floats.\<close>

fun float_mul :: "pyfloat \<Rightarrow> pyfloat \<Rightarrow> pyfloat" where
  "float_mul (Finite x) (Finite y) = round_double (x * y)"
| "float_mul NaN b = NaN"
| "float_mul a NaN = NaN"
| "float_mul a b =
     (if float_sign a * float_sign b = 0 then NaN
      else if 0 < float_sign a * float_sign b then PosInf else NegInf)"

text \<open>\<^verbatim>\<open>int(x)\<close> for a float: truncation toward zero; an infinity raises
  \<^verbatim>\<open>OverflowError\<close>, NaN raises \<^verbatim>\<open>ValueError\<close>.\<close>

fun py_int :: "pyfloat \<Rightarrow> exn + int" where
  "py_int (Finite x) = Inr (if 0 \<le> x then \<lfloor>x\<rfloor> else \<lceil>x\<rceil>)"
| "py_int PosInf = Inl OverflowError"
| "py_int NegInf = Inl OverflowError"
| "py_int NaN = Inl ValueError"

subsection \<open>Monitoring state (\<^verbatim>\<open>MonitoringState\<close>) and its stages\<close>

record deal_data =
  deal_title :: string
  deal_client_name :: string
  deal_value :: rat
  deal_health_score :: int
  deal_stage :: string
  previous_health_score :: "int option"

record communication =
  comm_type :: string
  comm_date :: string
  comm_from :: string
  comm_subject :: string
  comm_content :: string

text \<open>One entry of \<^verbatim>\<open>sentiment_scores\<close>; the stages read its \<^verbatim>\<open>signals\<close> key only
  (\<^verbatim>\<open>score.get("signals", [])\<close>, so a missing key is the empty list).\<close>

record sentiment_score =
  signals :: "string list"

record alert =
  alert_type :: string
  severity :: string
  title :: string
  description :: string

record monitoring_state =
  deal_id :: string
  task_id :: string
  deal_data :: deal_data
  recent_communications :: "communication list"
  sentiment_scores :: "sentiment_score list"
  overall_sentiment :: rat
  health_score :: int
  trend :: string
  detected_alerts :: "alert list"
  recovery_email :: string
  recovery_actions :: "string list"
  current_step :: string
  errors :: "string list"

record health_out =
  new_health_score :: int
  new_trend :: string
  health_current_step :: string

text \<open>\<^verbatim>\<open>health_node\<close> (monitoring.py, lines 86-115). The sentiment is a float, as the
  state declares it; \<^verbatim>\<open>sentiment * 15\<close> is the product of two doubles.\<close>

definition health_node :: "monitoring_state \<Rightarrow> exn + health_out" where
  "health_node state =
     (let sentiment = overall_sentiment state;
          base_score = deal_health_score (deal_data state)
      in case py_int (float_mul (round_double sentiment) (Finite 15)) of
           Inl e \<Rightarrow> Inl e
         | Inr sentiment_adjustment \<Rightarrow>
             (let score = max 0 (min 100 (base_score + sentiment_adjustment));
                  previous_score =
                    (case previous_health_score (deal_data state) of
                       None \<Rightarrow> base_score
                     | Some p \<Rightarrow> p);
                  tr = (if score > previous_score + 5 then ''up''
                        else if score < previous_score - 5 then ''down''
                        else ''stable'')
              in Inr \<lparr>new_health_score = score, new_trend = tr,
                      health_current_step = ''health''\<rparr>))"

text \<open>The health score as the specification words it: the adjustment is the floor of
  sentiment times 15 (the product of the numbers).\<close>

definition spec_health_score :: "int \<Rightarrow> rat \<Rightarrow> int" where
  "spec_health_score base_score sentiment =
     max 0 (min 100 (base_score + \<lfloor>sentiment * 15\<rfloor>))"

record alert_out =
  new_detected_alerts :: "alert list"
  alert_current_step :: string

text \<open>The inner loop over one score's signals: the first signal mentioning a competitor
  yields one alert, then \<^verbatim>\<open>break\<close>.\<close>

fun competitor_signal :: "string list \<Rightarrow> string option" where
  "competitor_signal [] = None"
| "competitor_signal (signal # rest) =
     (if contains ''competitor'' (lower signal) then Some signal else competitor_signal rest)"

fun competitor_alerts :: "sentiment_score list \<Rightarrow> alert list" where
  "competitor_alerts [] = []"
| "competitor_alerts (score # rest) =
     (case competitor_signal (signals score) of
        None \<Rightarrow> competitor_alerts rest
      | Some signal \<Rightarrow>
          \<lparr>alert_type = ''competitor_mention'', severity = ''medium'',
           title = ''Competitor mentioned in communications'',
           description = signal\<rparr> # competitor_alerts rest)"

definition sentiment_drop_alert :: "(rat \<Rightarrow> string) \<Rightarrow> deal_data \<Rightarrow> rat \<Rightarrow> alert" where
  "sentiment_drop_alert fmt2f dd sentiment =
     \<lparr>alert_type = ''sentiment_drop'',
      severity = (if sentiment < - (6 / 10) then ''critical'' else ''high''),
      title = ''Negative sentiment detected for '' @ deal_client_name dd,
      description = ''Overall sentiment score: '' @ fmt2f sentiment
                      @ ''. Immediate attention required.''\<rparr>"

definition deadline_risk_alert :: "int \<Rightarrow> alert" where
  "deadline_risk_alert h =
     \<lparr>alert_type = ''deadline_risk'', severity = ''high'',
      title = ''Deal health critical: '' @ str_int h @ ''%'',
      description = ''Deal health has dropped to '' @ str_int h
                      @ ''%. Review and take action.''\<rparr>"

definition positive_update_alert ::
  "(rat \<Rightarrow> string) \<Rightarrow> deal_data \<Rightarrow> rat \<Rightarrow> sentiment_score list \<Rightarrow> alert" where
  "positive_update_alert fmt2f dd sentiment scores =
     (let positive_signals = concat (map signals scores)
      in \<lparr>alert_type = ''positive_update'', severity = ''info'',
          title = ''Positive sentiment from '' @ deal_client_name dd,
          description = ''Client communication is positive (sentiment: '' @ fmt2f sentiment
            @ ''). ''
            @ (if positive_signals \<noteq> [] then join ''; '' (take 3 positive_signals)
               else ''Good relationship signals detected.'')\<rparr>)"

text \<open>\<^verbatim>\<open>alert_node\<close> (monitoring.py, lines 118-176). The parameter \<open>fmt2f\<close> is Python's
  \<^verbatim>\<open>format(x, ".2f")\<close>.\<close>

definition alert_node :: "(rat \<Rightarrow> string) \<Rightarrow> monitoring_state \<Rightarrow> alert_out" where
  "alert_node fmt2f state =
     (let sentiment = overall_sentiment state;
          h = health_score state;
          scores = sentiment_scores state;
          dd = deal_data state;
          alerts1 = (if sentiment < - (3 / 10) then [sentiment_drop_alert fmt2f dd sentiment]
                     else []);
          alerts2 = alerts1 @ (if h < 50 then [deadline_risk_alert h] else []);
          alerts3 = alerts2 @ competitor_alerts scores;
          alerts4 = alerts3 @
            (if alerts3 = [] \<and> sentiment > 2 / 10
             then [positive_update_alert fmt2f dd sentiment scores] else [])
      in \<lparr>new_detected_alerts = alerts4, alert_current_step = ''alert''\<rparr>)"

text \<open>Whether some signal of some score mentions a competitor.\<close>

definition mentions_competitor :: "sentiment_score list \<Rightarrow> bool" where
  "mentions_competitor scores =
     list_ex (\<lambda>score. list_ex (\<lambda>signal. contains ''competitor'' (lower signal)) (signals score))
       scores"

definition example_deal :: deal_data where
  "example_deal =
     \<lparr>deal_title = ''Portal'', deal_client_name = ''Acme'', deal_value = 1000,
      deal_health_score = 70, deal_stage = ''proposal'', previous_health_score = None\<rparr>"

definition example_state :: "rat \<Rightarrow> int \<Rightarrow> sentiment_score list \<Rightarrow> monitoring_state" where
  "example_state sentiment h scores =
     \<lparr>deal_id = ''d1'', task_id = ''t1'', deal_data = example_deal,
      recent_communications = [], sentiment_scores = scores, overall_sentiment = sentiment,
      health_score = h, trend = ''stable'', detected_alerts = [], recovery_email = [],
      recovery_actions = [], current_step = ''health'', errors = []\<rparr>"

subsection \<open>Capability matching and auto-assignment (\<^verbatim>\<open>run_qualification_flow\<close>)\<close>

text \<open>A row of the \<^verbatim>\<open>employees\<close> table; \<^verbatim>\<open>skills\<close> is a nullable JSON list of strings.\<close>

record employee =
  emp_id :: string
  emp_name :: string
  emp_role :: string
  emp_department :: string
  emp_skills :: "string list option"
  emp_availability_percent :: int
  emp_hourly_rate :: rat
  emp_is_active :: bool

text \<open>An extracted requirement; a key the dictionary lacks is \<open>None\<close>
  (\<^verbatim>\<open>req.get("text", "")\<close>, \<^verbatim>\<open>req.get("category", "")\<close>).\<close>

record requirement =
  req_text :: "string option"
  req_category :: "string option"

text \<open>The keys of \<^verbatim>\<open>gap_analysis\<close> the matcher reads; \<open>key_roles\<close> is
  \<^verbatim>\<open>gap_analysis.get("resource_estimate", {}).get("key_roles", [])\<close>.\<close>

record gap_analysis =
  strong_areas :: "string list"
  gap_areas :: "string list"
  key_roles :: "string list"

record matched_staff =
  staff_employee_id :: string
  staff_name :: string
  staff_role :: string
  staff_skills :: "string list"
  matching_skills :: "string set"
  match_score :: int
  staff_availability_percent :: int
  staff_hourly_rate :: rat

text \<open>The whitespace tokens of more than three characters.\<close>

definition long_words :: "string \<Rightarrow> string list" where
  "long_words s = filter (\<lambda>word. len word > 3) (split s)"

definition get_default :: "'a \<Rightarrow> 'a option \<Rightarrow> 'a" where
  "get_default d v = (case v of None \<Rightarrow> d | Some x \<Rightarrow> x)"

text \<open>The keyword set built at orchestrator.py, lines 224-240: the long words of every
  requirement text, every requirement category as a whole, the long words of the strong
  and gap areas, and the long words of the key roles, all lower-cased. The parameter
  \<open>str_lower\<close> is \<^verbatim>\<open>str.lower\<close> (the case mapping of Unicode).\<close>

definition required_keywords ::
  "(string \<Rightarrow> string) \<Rightarrow> requirement list \<Rightarrow> gap_analysis \<Rightarrow> string set" where
  "required_keywords str_lower reqs gap =
     (\<Union>req \<in> set reqs.
         set (long_words (str_lower (get_default [] (req_text req))))
         \<union> {str_lower (get_default [] (req_category req))})
     \<union> (\<Union>area \<in> set (strong_areas gap @ gap_areas gap).
          set (long_words (str_lower area)))
     \<union> (\<Union>role \<in> set (key_roles gap). set (long_words (str_lower role)))"

text \<open>The requirement keyword set as the specification words it: the lower-cased
  whitespace tokens of length above 3 of each requirement's text and category.\<close>

definition spec_required_keywords ::
  "(string \<Rightarrow> string) \<Rightarrow> requirement list \<Rightarrow> string set" where
  "spec_required_keywords str_lower reqs =
     (\<Union>req \<in> set reqs.
         set (long_words (str_lower (get_default [] (req_text req))))
         \<union> set (long_words (str_lower (get_default [] (req_category req)))))"

text \<open>The token set of a roster record (lines 244-246).\<close>

definition emp_terms :: "(string \<Rightarrow> string) \<Rightarrow> employee \<Rightarrow> string set" where
  "emp_terms str_lower emp =
     (let skills = set (map str_lower (get_default [] (emp_skills emp)));
          emp_role_words = set (map str_lower (long_words (emp_role emp)))
      in skills \<union> emp_role_words)"

definition staff_of :: "(string \<Rightarrow> string) \<Rightarrow> string set \<Rightarrow> employee \<Rightarrow> matched_staff" where
  "staff_of str_lower keywords emp =
     \<lparr>staff_employee_id = emp_id emp, staff_name = emp_name emp, staff_role = emp_role emp,
      staff_skills = get_default [] (emp_skills emp),
      matching_skills = emp_terms str_lower emp \<inter> keywords,
      match_score = int (card (emp_terms str_lower emp \<inter> keywords)),
      staff_availability_percent = emp_availability_percent emp,
      staff_hourly_rate = emp_hourly_rate emp\<rparr>"

text \<open>The scoring loop (lines 243-258): a record is appended only when the overlap is
  not empty.\<close>

fun score_employees ::
  "(string \<Rightarrow> string) \<Rightarrow> string set \<Rightarrow> employee list \<Rightarrow> matched_staff list" where
  "score_employees str_lower keywords [] = []"
| "score_employees str_lower keywords (emp # rest) =
     (if emp_terms str_lower emp \<inter> keywords \<noteq> {}
      then staff_of str_lower keywords emp # score_employees str_lower keywords rest
      else score_employees str_lower keywords rest)"

text \<open>\<^verbatim>\<open>xs.sort(key=f, reverse=True)\<close>: descending and stable (equal keys keep their
  order).\<close>

definition sort_desc :: "('a \<Rightarrow> 'k::linorder) \<Rightarrow> 'a list \<Rightarrow> 'a list" where
  "sort_desc f xs = rev (sort_key f (rev xs))"

text \<open>The ranking \<^verbatim>\<open>matched_staff\<close> of lines 219-260, from the \<^verbatim>\<open>employees\<close> table.\<close>

definition match_staff ::
  "(string \<Rightarrow> string) \<Rightarrow> employee list \<Rightarrow> requirement list \<Rightarrow> gap_analysis
     \<Rightarrow> matched_staff list" where
  "match_staff str_lower employees reqs gap =
     (let all_employees = filter emp_is_active employees
      in if all_employees \<noteq> []
         then sort_desc match_score
                (score_employees str_lower (required_keywords str_lower reqs gap) all_employees)
         else [])"

text \<open>A row of the \<^verbatim>\<open>deal_assignments\<close> table.\<close>

record deal_assignment =
  asg_id :: string
  asg_deal_id :: string
  asg_employee_id :: string
  role_on_deal :: "string option"
  allocation_percent :: int
  hourly_rate_override :: "rat option"
  assigned_by :: string
  asg_match_score :: "int option"
  asg_notes :: "string option"

definition new_assignment :: "string \<Rightarrow> string \<Rightarrow> matched_staff \<Rightarrow> deal_assignment" where
  "new_assignment new_id did staff =
     \<lparr>asg_id = new_id, asg_deal_id = did, asg_employee_id = staff_employee_id staff,
      role_on_deal = Some (staff_role staff),
      allocation_percent = min (staff_availability_percent staff) 100,
      hourly_rate_override = None, assigned_by = ''auto'',
      asg_match_score = Some (match_score staff), asg_notes = None\<rparr>"

fun add_assignments ::
  "(nat \<Rightarrow> string) \<Rightarrow> nat \<Rightarrow> string \<Rightarrow> matched_staff list \<Rightarrow> deal_assignment list" where
  "add_assignments uuid4 n did [] = []"
| "add_assignments uuid4 n did (staff # rest) =
     new_assignment (uuid4 n) did staff # add_assignments uuid4 (Suc n) did rest"

text \<open>Lines 262-282: the table after the auto-assignment and the counter
  \<^verbatim>\<open>auto_assigned\<close>. The parameter \<open>uuid4\<close> gives the identifiers drawn in turn.\<close>

definition auto_assign ::
  "(nat \<Rightarrow> string) \<Rightarrow> string \<Rightarrow> matched_staff list \<Rightarrow> deal_assignment list
     \<Rightarrow> deal_assignment list \<times> nat" where
  "auto_assign uuid4 did matched table =
     (if matched \<noteq> []
      then (filter (\<lambda>a. \<not> (asg_deal_id a = did \<and> assigned_by a = ''auto'')) table
              @ add_assignments uuid4 0 did (take 5 matched),
            length (take 5 matched))
      else (table, 0))"

definition example_employee :: "string \<Rightarrow> string \<Rightarrow> string list \<Rightarrow> int \<Rightarrow> employee" where
  "example_employee i role skills avail =
     \<lparr>emp_id = i, emp_name = i, emp_role = role, emp_department = ''eng'',
      emp_skills = Some skills, emp_availability_percent = avail, emp_hourly_rate = 50,
      emp_is_active = True\<rparr>"

definition example_gap :: gap_analysis where
  "example_gap = \<lparr>strong_areas = [''Rust Java''], gap_areas = [], key_roles = []\<rparr>"

definition no_gap :: gap_analysis where
  "no_gap = \<lparr>strong_areas = [], gap_areas = [], key_roles = []\<rparr>"

definition example_roster :: "employee list" where
  "example_roster =
     [example_employee ''e1'' ''Dev'' [''Rust''] 80,
      example_employee ''e2'' ''Dev'' [''C''] 100,
      example_employee ''e3'' ''Dev'' [''rust'', ''java''] 120,
      example_employee ''e4'' ''Dev'' [''JAVA''] 50,
      example_employee ''e5'' ''Dev'' [''rust''] 100,
      example_employee ''e6'' ''Dev'' [''rust''] 100,
      example_employee ''e7'' ''Dev'' [''rust''] 100]"

definition example_assignment :: "string \<Rightarrow> string \<Rightarrow> string \<Rightarrow> deal_assignment" where
  "example_assignment did emp by =
     \<lparr>asg_id = emp, asg_deal_id = did, asg_employee_id = emp, role_on_deal = None,
      allocation_percent = 100, hourly_rate_override = None, assigned_by = by,
      asg_match_score = None, asg_notes = None\<rparr>"

definition example_table :: "deal_assignment list" where
  "example_table =
     [example_assignment ''d1'' ''m1'' ''manual'',
      example_assignment ''d1'' ''a1'' ''auto'',
      example_assignment ''d2'' ''x9'' ''auto'']"

subsection \<open>Reasoning-service responses: JSON values and the parse paths\<close>

text \<open>What \<^verbatim>\<open>json.loads\<close> returns; an object holds the items of the Python dict.\<close>

datatype json =
    JNull
  | JBool bool
  | JInt int
  | JFloat pyfloat
  | JStr string
  | JArr "json list"
  | JObj "(string \<times> json) list"

text \<open>\<^verbatim>\<open>a < b\<close> on floats; every comparison with NaN is false.\<close>

fun float_less :: "pyfloat \<Rightarrow> pyfloat \<Rightarrow> bool" where
  "float_less NaN b = False"
| "float_less a NaN = False"
| "float_less (Finite x) (Finite y) = (x < y)"
| "float_less NegInf NegInf = False"
| "float_less NegInf b = True"
| "float_less a PosInf = (a \<noteq> PosInf)"
| "float_less a b = False"

text \<open>\<^verbatim>\<open>min(a, b)\<close> and \<^verbatim>\<open>max(a, b)\<close>: the first argument unless the second is strictly
  smaller (larger).\<close>

definition py_min :: "pyfloat \<Rightarrow> pyfloat \<Rightarrow> pyfloat" where
  "py_min a b = (if float_less b a then b else a)"

definition py_max :: "pyfloat \<Rightarrow> pyfloat \<Rightarrow> pyfloat" where
  "py_max a b = (if float_less a b then b else a)"

text \<open>\<^verbatim>\<open>float(n)\<close> for an int raises OverflowError when the nearest double is not
  finite.\<close>

definition float_of_int :: "int \<Rightarrow> exn + pyfloat" where
  "float_of_int n =
     (if \<bar>n\<bar> \<ge> 2 ^ 1024 - 2 ^ 970 then Inl OverflowError else Inr (Finite (of_int n)))"

text \<open>\<^verbatim>\<open>d.get(key, default)\<close>: only a dict has the method.\<close>

fun py_get :: "json \<Rightarrow> string \<Rightarrow> json \<Rightarrow> exn + json" where
  "py_get (JObj items) key dflt =
     Inr (case map_of items key of None \<Rightarrow> dflt | Some v \<Rightarrow> v)"
| "py_get v key dflt = Inl AttributeError"

text \<open>\<^verbatim>\<open>len(v)\<close>.\<close>

fun py_len :: "json \<Rightarrow> exn + nat" where
  "py_len (JStr s) = Inr (len s)"
| "py_len (JArr xs) = Inr (length xs)"
| "py_len (JObj items) = Inr (length items)"
| "py_len v = Inl TypeError"

text \<open>Truth value of \<^verbatim>\<open>if v:\<close>.\<close>

fun truthy :: "json \<Rightarrow> bool" where
  "truthy JNull = False"
| "truthy (JBool b) = b"
| "truthy (JInt n) = (n \<noteq> 0)"
| "truthy (JFloat f) = (f \<noteq> Finite 0)"
| "truthy (JStr s) = (s \<noteq> [])"
| "truthy (JArr xs) = (xs \<noteq> [])"
| "truthy (JObj items) = (items \<noteq> [])"

text \<open>\<^verbatim>\<open>s.split(sep)\<close> for a separator that is not empty; \<open>skip\<close> counts the characters
  of a separator still to pass.\<close>

fun split_sep_from :: "string \<Rightarrow> nat \<Rightarrow> string \<Rightarrow> string \<Rightarrow> string list" where
  "split_sep_from sep skip cur [] = [cur]"
| "split_sep_from sep (Suc k) cur (c # cs) = split_sep_from sep k cur cs"
| "split_sep_from sep 0 cur (c # cs) =
     (if startswith (c # cs) sep then cur # split_sep_from sep (length sep - 1) [] cs
      else split_sep_from sep 0 (cur @ [c]) cs)"

definition split_sep :: "string \<Rightarrow> string \<Rightarrow> string list" where
  "split_sep sep s = split_sep_from sep 0 [] s"

text \<open>\<^verbatim>\<open>xs[i]\<close> for an index that is not negative.\<close>

definition index :: "'a list \<Rightarrow> nat \<Rightarrow> exn + 'a" where
  "index xs i = (if i < length xs then Inr (xs ! i) else Inl IndexError)"

definition fence :: string where
  "fence = [CHR 0x60, CHR 0x60, CHR 0x60]"

definition fence_json :: string where
  "fence_json = fence @ ''json''"

text \<open>\<^verbatim>\<open>text.split(opening)[1].split("```")[0]\<close>.\<close>

definition between_fences :: "string \<Rightarrow> string \<Rightarrow> exn + string" where
  "between_fences opening text =
     (case index (split_sep opening text) 1 of
        Inl e \<Rightarrow> Inl e
      | Inr rest \<Rightarrow> index (split_sep fence rest) 0)"

text \<open>The fence handling shared by the sentiment, extract, analyze, decide and recovery
  stages.\<close>

definition unfence :: "string \<Rightarrow> exn + string" where
  "unfence result_text =
     (if contains fence_json result_text then between_fences fence_json result_text
      else if contains fence result_text then between_fences fence result_text
      else Inr result_text)"

record sentiment_out =
  new_sentiment_scores :: json
  new_overall_sentiment :: json
  sentiment_current_step :: string

definition sentiment_default :: sentiment_out where
  "sentiment_default =
     \<lparr>new_sentiment_scores = JArr [], new_overall_sentiment = JFloat (Finite 0),
      sentiment_current_step = ''sentiment''\<rparr>"

text \<open>The body of the \<^verbatim>\<open>try\<close> of \<^verbatim>\<open>sentiment_node\<close> (monitoring.py, lines 63-76);
  \<open>loads\<close> is \<^verbatim>\<open>json.loads\<close>. The log line of the body evaluates
  \<^verbatim>\<open>len(sentiment_scores)\<close>, which raises \<^verbatim>\<open>TypeError\<close> for a value without a length.\<close>

definition sentiment_try :: "(string \<Rightarrow> exn + json) \<Rightarrow> string \<Rightarrow> exn + sentiment_out" where
  "sentiment_try loads result_text =
     (case unfence result_text of
        Inl e \<Rightarrow> Inl e
      | Inr t \<Rightarrow>
         (case loads (strip t) of
            Inl e \<Rightarrow> Inl e
          | Inr result \<Rightarrow>
             (case py_get result ''scores'' (JArr []) of
                Inl e \<Rightarrow> Inl e
              | Inr scores \<Rightarrow>
                 (case py_get result ''overall_sentiment'' (JFloat (Finite 0)) of
                    Inl e \<Rightarrow> Inl e
                  | Inr overall \<Rightarrow>
                     (case py_len scores of
                        Inl e \<Rightarrow> Inl e
                      | Inr communications_analyzed \<Rightarrow>
                          Inr \<lparr>new_sentiment_scores = scores,
                               new_overall_sentiment = overall,
                               sentiment_current_step = ''sentiment''\<rparr>)))))"

text \<open>The parse path of \<^verbatim>\<open>sentiment_node\<close> (lines 62-83): the handler catches
  \<^verbatim>\<open>json.JSONDecodeError\<close> and \<^verbatim>\<open>IndexError\<close> only.\<close>

definition sentiment_parse :: "(string \<Rightarrow> exn + json) \<Rightarrow> string \<Rightarrow> exn + sentiment_out" where
  "sentiment_parse loads result_text =
     (case sentiment_try loads result_text of
        Inl JSONDecodeError \<Rightarrow> Inr sentiment_default
      | Inl IndexError \<Rightarrow> Inr sentiment_default
      | Inl e \<Rightarrow> Inl e
      | Inr out \<Rightarrow> Inr out)"

text \<open>\<^verbatim>\<open>sentiment_node\<close> (lines 11-83). \<open>call_llm\<close> stands for the call of the reasoning
  service on the prompt built from the state; it returns the response text or raises.\<close>

definition sentiment_node ::
  "(string \<Rightarrow> exn + json) \<Rightarrow> (monitoring_state \<Rightarrow> exn + string) \<Rightarrow> monitoring_state
     \<Rightarrow> exn + sentiment_out" where
  "sentiment_node loads call_llm state =
     (if recent_communications state = [] then Inr sentiment_default
      else (case call_llm state of
              Inl e \<Rightarrow> Inl e
            | Inr result_text \<Rightarrow> sentiment_parse loads result_text))"

record decide_out =
  new_recommendation :: json
  new_confidence_score :: json
  new_positive_factors :: "json option"
  new_risk_factors :: "json option"
  new_conditions :: "json option"
  new_reasoning :: json
  decide_current_step :: string

definition decide_default :: decide_out where
  "decide_default =
     \<lparr>new_recommendation = JStr ''no_go'', new_confidence_score = JFloat (Finite 0),
      new_positive_factors = None, new_risk_factors = None, new_conditions = None,
      new_reasoning = JStr ''Failed to generate decision'', decide_current_step = ''decide''\<rparr>"

text \<open>The body of the \<^verbatim>\<open>try\<close> of \<^verbatim>\<open>decide_node\<close> (qualification.py, lines 325-342).\<close>

definition decide_try :: "(string \<Rightarrow> exn + json) \<Rightarrow> string \<Rightarrow> exn + decide_out" where
  "decide_try loads result_text =
     (case unfence result_text of
        Inl e \<Rightarrow> Inl e
      | Inr t \<Rightarrow>
     (case loads (strip t) of
        Inl e \<Rightarrow> Inl e
      | Inr decision \<Rightarrow>
     (case py_get decision ''recommendation'' (JStr ''no_go'') of
        Inl e \<Rightarrow> Inl e
      | Inr recommendation \<Rightarrow>
     (case py_get decision ''confidence_score'' (JFloat (Finite (1 / 2))) of
        Inl e \<Rightarrow> Inl e
      | Inr confidence \<Rightarrow>
     (case py_get decision ''positive_factors'' (JArr []) of
        Inl e \<Rightarrow> Inl e
      | Inr positive \<Rightarrow>
     (case py_get decision ''risk_factors'' (JArr []) of
        Inl e \<Rightarrow> Inl e
      | Inr risk \<Rightarrow>
     (case py_get decision ''conditions'' (JArr []) of
        Inl e \<Rightarrow> Inl e
      | Inr conds \<Rightarrow>
     (case py_get decision ''reasoning'' (JStr []) of
        Inl e \<Rightarrow> Inl e
      | Inr reasoning \<Rightarrow>
          Inr \<lparr>new_recommendation = recommendation, new_confidence_score = confidence,
               new_positive_factors = Some positive, new_risk_factors = Some risk,
               new_conditions = Some conds, new_reasoning = reasoning,
               decide_current_step = ''decide''\<rparr>))))))))"

text \<open>The parse path of \<^verbatim>\<open>decide_node\<close> (lines 324-350).\<close>

definition decide_parse :: "(string \<Rightarrow> exn + json) \<Rightarrow> string \<Rightarrow> exn + decide_out" where
  "decide_parse loads result_text =
     (case decide_try loads result_text of
        Inl JSONDecodeError \<Rightarrow> Inr decide_default
      | Inl IndexError \<Rightarrow> Inr decide_default
      | Inl e \<Rightarrow> Inl e
      | Inr out \<Rightarrow> Inr out)"

record comply_out =
  new_compliance_score :: pyfloat
  new_compliance_issues :: json
  new_final_proposal :: "string option"
  comply_current_step :: string

text \<open>\<^verbatim>\<open>try: parsed = json.loads(s)\<close> with \<^verbatim>\<open>except json.JSONDecodeError: pass\<close>;
  \<open>JNull\<close> is Python's \<^verbatim>\<open>None\<close>.\<close>

definition loads_or_keep :: "(string \<Rightarrow> exn + json) \<Rightarrow> string \<Rightarrow> json \<Rightarrow> exn + json" where
  "loads_or_keep loads s parsed =
     (case loads s of
        Inl JSONDecodeError \<Rightarrow> Inr parsed
      | Inl e \<Rightarrow> Inl e
      | Inr v \<Rightarrow> Inr v)"

definition em_dash :: string where
  "em_dash = [CHR 0xE2, CHR 0x80, CHR 0x94]"

definition marker :: string where
  "marker = CHR 0x22 # ''compliance_score'' @ [CHR 0x22]"

text \<open>Whether the marker occurs with a closing brace somewhere after it.\<close>

fun marker_then_brace :: "string \<Rightarrow> bool" where
  "marker_then_brace [] = False"
| "marker_then_brace (c # cs) =
     ((startswith (c # cs) marker \<and> CHR ''}'' \<in> set (drop (length marker) (c # cs)))
      \<or> marker_then_brace cs)"

text \<open>\<^verbatim>\<open>re.search(r'\{[\s\S]*"compliance_score"[\s\S]*\}', text)\<close>: the leftmost opening
  brace that the marker and a closing brace follow, up to the last closing brace.\<close>

fun regex_search :: "string \<Rightarrow> string option" where
  "regex_search [] = None"
| "regex_search (c # cs) =
     (if c = CHR ''{'' \<and> marker_then_brace cs
      then Some (c # rev (dropWhile (\<lambda>x. x \<noteq> CHR ''}'') (rev cs)))
      else regex_search cs)"

definition strategy1 :: "(string \<Rightarrow> exn + json) \<Rightarrow> string \<Rightarrow> exn + json" where
  "strategy1 loads result_text =
     (if contains fence_json result_text
      then (case between_fences fence_json result_text of
              Inl e \<Rightarrow> Inl e
            | Inr json_str \<Rightarrow> loads_or_keep loads (strip json_str) JNull)
      else Inr JNull)"

definition strategy2 :: "(string \<Rightarrow> exn + json) \<Rightarrow> string \<Rightarrow> json \<Rightarrow> exn + json" where
  "strategy2 loads result_text parsed =
     (if parsed = JNull \<and> contains fence result_text
      then (case between_fences fence result_text of
              Inl e \<Rightarrow> Inl e
            | Inr json_str \<Rightarrow> loads_or_keep loads (strip json_str) parsed)
      else Inr parsed)"

definition strategy3 :: "(string \<Rightarrow> exn + json) \<Rightarrow> string \<Rightarrow> json \<Rightarrow> exn + json" where
  "strategy3 loads result_text parsed =
     (if parsed = JNull
      then (case regex_search result_text of
              None \<Rightarrow> Inr parsed
            | Some json_match \<Rightarrow> loads_or_keep loads json_match parsed)
      else Inr parsed)"

definition strategy4 :: "(string \<Rightarrow> exn + json) \<Rightarrow> string \<Rightarrow> json \<Rightarrow> exn + json" where
  "strategy4 loads result_text parsed =
     (if parsed = JNull then loads_or_keep loads (strip result_text) parsed else Inr parsed)"

definition unparsed_issue :: "string \<Rightarrow> json" where
  "unparsed_issue notes =
     JArr [JObj [(''requirement_index'', JInt 0), (''requirement_text'', JStr ''Auto-check''),
                 (''status'', JStr ''partially_addressed''), (''notes'', JStr notes)]]"

text \<open>Lines 372-386: the score is clamped when it is a number (a bool is an int).\<close>

definition clamp_score :: "json \<Rightarrow> exn + pyfloat" where
  "clamp_score score =
     (case score of
        JBool b \<Rightarrow> Inr (py_max (Finite 0) (py_min (Finite 1) (Finite (if b then 1 else 0))))
      | JInt n \<Rightarrow>
          (case float_of_int n of
             Inl e \<Rightarrow> Inl e
           | Inr x \<Rightarrow> Inr (py_max (Finite 0) (py_min (Finite 1) x)))
      | JFloat x \<Rightarrow> Inr (py_max (Finite 0) (py_min (Finite 1) x))
      | _ \<Rightarrow> Inr (Finite (85 / 100)))"

text \<open>The body of the outer \<^verbatim>\<open>try\<close> of \<^verbatim>\<open>comply_node\<close> (proposal.py, lines 333-395).\<close>

definition comply_try ::
  "(string \<Rightarrow> exn + json) \<Rightarrow> string \<Rightarrow> string \<Rightarrow> exn + comply_out" where
  "comply_try loads draft result_text =
     (case strategy1 loads result_text of
        Inl e \<Rightarrow> Inl e
      | Inr p1 \<Rightarrow>
     (case strategy2 loads result_text p1 of
        Inl e \<Rightarrow> Inl e
      | Inr p2 \<Rightarrow>
     (case strategy3 loads result_text p2 of
        Inl e \<Rightarrow> Inl e
      | Inr p3 \<Rightarrow>
     (case strategy4 loads result_text p3 of
        Inl e \<Rightarrow> Inl e
      | Inr parsed \<Rightarrow>
          (if truthy parsed
           then
             (case py_get parsed ''compliance_score'' (JFloat (Finite 0)) of
                Inl e \<Rightarrow> Inl e
              | Inr raw \<Rightarrow>
             (case clamp_score raw of
                Inl e \<Rightarrow> Inl e
              | Inr score \<Rightarrow>
             (case py_get parsed ''issues'' (JArr []) of
                Inl e \<Rightarrow> Inl e
              | Inr issues \<Rightarrow>
             (case py_len issues of
                Inl e \<Rightarrow> Inl e
              | Inr issues_count \<Rightarrow>
                  Inr \<lparr>new_compliance_score = score, new_compliance_issues = issues,
                       new_final_proposal = Some draft, comply_current_step = ''comply''\<rparr>))))
           else
             Inr \<lparr>new_compliance_score = Finite (85 / 100),
                  new_compliance_issues = unparsed_issue
                    (''Compliance check could not fully parse '' @ em_dash
                       @ '' manual review recommended.''),
                  new_final_proposal = Some draft, comply_current_step = ''comply''\<rparr>)))))"

text \<open>The parse path of \<^verbatim>\<open>comply_node\<close> (lines 333-404): the outer handler catches
  every exception. \<open>str_exn\<close> is \<^verbatim>\<open>str(e)\<close>.\<close>

definition comply_parse ::
  "(exn \<Rightarrow> string) \<Rightarrow> (string \<Rightarrow> exn + json) \<Rightarrow> string \<Rightarrow> string \<Rightarrow> comply_out" where
  "comply_parse str_exn loads draft result_text =
     (case comply_try loads draft result_text of
        Inl e \<Rightarrow>
          \<lparr>new_compliance_score = Finite (85 / 100),
           new_compliance_issues = unparsed_issue (''Compliance check error: '' @ str_exn e),
           new_final_proposal = Some draft, comply_current_step = ''comply''\<rparr>
      | Inr out \<Rightarrow> out)"

text \<open>A score in the documented domain: a finite number between 0 and 1.\<close>

fun in_unit :: "pyfloat \<Rightarrow> bool" where
  "in_unit (Finite x) = (0 \<le> x \<and> x \<le> 1)"
| "in_unit f = False"

fun json_in_unit :: "json \<Rightarrow> bool" where
  "json_in_unit (JInt n) = (0 \<le> n \<and> n \<le> 1)"
| "json_in_unit (JFloat f) = in_unit f"
| "json_in_unit v = False"

text \<open>What \<^verbatim>\<open>json.loads\<close> does on the inputs of a table: it returns the listed value, and
  raises \<^verbatim>\<open>JSONDecodeError\<close> on any other input (used for concrete responses only).\<close>

definition loads_table :: "(string \<times> json) list \<Rightarrow> string \<Rightarrow> exn + json" where
  "loads_table tbl s = (case map_of tbl s of None \<Rightarrow> Inl JSONDecodeError | Some v \<Rightarrow> Inr v)"

definition confidence_text :: string where
  "confidence_text = ''{'' @ [CHR 0x22] @ ''confidence_score'' @ [CHR 0x22] @ '': 7}''"

subsection \<open>The stage graphs (LangGraph \<^verbatim>\<open>StateGraph\<close>)\<close>

text \<open>The state of a run and the output of a stage are Python dicts; \<^verbatim>\<open>d.update(e)\<close> is
  \<open>AList.merge d e\<close>. A stage maps the state to its partial update, or raises.\<close>

type_synonym pydict = "(string \<times> json) list"

type_synonym node = "pydict \<Rightarrow> exn + pydict"

datatype target = Node string | END

record state_graph =
  graph_nodes :: "(string \<times> node) list"
  entry_point :: "string option"
  graph_edges :: "(string \<times> target) list"

definition empty_graph :: state_graph where
  "empty_graph = \<lparr>graph_nodes = [], entry_point = None, graph_edges = []\<rparr>"

definition add_node :: "string \<Rightarrow> node \<Rightarrow> state_graph \<Rightarrow> state_graph" where
  "add_node name f g = g\<lparr>graph_nodes := graph_nodes g @ [(name, f)]\<rparr>"

definition set_entry_point :: "string \<Rightarrow> state_graph \<Rightarrow> state_graph" where
  "set_entry_point name g = g\<lparr>entry_point := Some name\<rparr>"

definition add_edge :: "string \<Rightarrow> target \<Rightarrow> state_graph \<Rightarrow> state_graph" where
  "add_edge a b g = g\<lparr>graph_edges := graph_edges g @ [(a, b)]\<rparr>"

text \<open>\<^verbatim>\<open>build_qualification_graph\<close> (qualification.py, lines 353-370); the stage functions
  are parameters.\<close>

definition build_qualification_graph :: "node \<Rightarrow> node \<Rightarrow> node \<Rightarrow> node \<Rightarrow> node \<Rightarrow> state_graph" where
  "build_qualification_graph ingest extract analyze match decide =
     (add_edge ''decide'' END
     (add_edge ''match'' (Node ''decide'')
     (add_edge ''analyze'' (Node ''match'')
     (add_edge ''extract'' (Node ''analyze'')
     (add_edge ''ingest'' (Node ''extract'')
     (set_entry_point ''ingest''
     (add_node ''decide'' decide
     (add_node ''match'' match
     (add_node ''analyze'' analyze
     (add_node ''extract'' extract
     (add_node ''ingest'' ingest empty_graph)))))))))))"

text \<open>\<^verbatim>\<open>build_proposal_graph\<close> (proposal.py, lines 407-420).\<close>

definition build_proposal_graph :: "node \<Rightarrow> node \<Rightarrow> node \<Rightarrow> state_graph" where
  "build_proposal_graph retrieve generate comply =
     (add_edge ''comply'' END
     (add_edge ''generate'' (Node ''comply'')
     (add_edge ''retrieve'' (Node ''generate'')
     (set_entry_point ''retrieve''
     (add_node ''comply'' comply
     (add_node ''generate'' generate
     (add_node ''retrieve'' retrieve empty_graph)))))))"

text \<open>\<^verbatim>\<open>build_monitoring_graph\<close> (monitoring.py, lines 314-329).\<close>

definition build_monitoring_graph :: "node \<Rightarrow> node \<Rightarrow> node \<Rightarrow> node \<Rightarrow> state_graph" where
  "build_monitoring_graph sentiment health alert recovery =
     (add_edge ''recovery'' END
     (add_edge ''alert'' (Node ''recovery'')
     (add_edge ''health'' (Node ''alert'')
     (add_edge ''sentiment'' (Node ''health'')
     (set_entry_point ''sentiment''
     (add_node ''recovery'' recovery
     (add_node ''alert'' alert
     (add_node ''health'' health
     (add_node ''sentiment'' sentiment empty_graph)))))))))"

text \<open>\<^verbatim>\<open>graph.stream(initial_state)\<close>: the stages run along the edges from the entry point;
  after each stage its output is merged into the state and yielded as an event. A stage that
  raises ends the stream with its exception. The first argument is what remains of
  LangGraph's recursion limit.\<close>

fun stream_from ::
  "nat \<Rightarrow> state_graph \<Rightarrow> target \<Rightarrow> pydict \<Rightarrow> (string \<times> pydict) list \<times> exn option" where
  "stream_from fuel g END state = ([], None)"
| "stream_from 0 g (Node name) state = ([], Some GraphRecursionError)"
| "stream_from (Suc fuel) g (Node name) state =
     (case map_of (graph_nodes g) name of
        None \<Rightarrow> ([], Some KeyError)
      | Some f \<Rightarrow>
         (case f state of
            Inl e \<Rightarrow> ([], Some e)
          | Inr out \<Rightarrow>
             (case stream_from fuel g
                     (case map_of (graph_edges g) name of None \<Rightarrow> END | Some t \<Rightarrow> t)
                     (AList.merge state out) of
                (events, err) \<Rightarrow> ((name, out) # events, err))))"

definition recursion_limit :: nat where
  "recursion_limit = 25"

definition graph_stream :: "state_graph \<Rightarrow> pydict \<Rightarrow> (string \<times> pydict) list \<times> exn option" where
  "graph_stream g initial_state =
     (case entry_point g of
        None \<Rightarrow> ([], Some KeyError)
      | Some name \<Rightarrow> stream_from recursion_limit g (Node name) initial_state)"

text \<open>A chain of stages run in order, for comparison with the stream of a built graph.\<close>

fun run_chain :: "(string \<times> node) list \<Rightarrow> pydict \<Rightarrow> (string \<times> pydict) list \<times> exn option" where
  "run_chain [] state = ([], None)"
| "run_chain ((name, f) # rest) state =
     (case f state of
        Inl e \<Rightarrow> ([], Some e)
      | Inr out \<Rightarrow>
          (case run_chain rest (AList.merge state out) of
             (events, err) \<Rightarrow> ((name, out) # events, err)))"

subsection \<open>The orchestrator: progress updates and the three flows\<close>

text \<open>An entry of \<^verbatim>\<open>task_store\<close>. The record written by \<^verbatim>\<open>run_agent_flow\<close> at the start
  has no stage numbers and no data.\<close>

record update =
  update_task_id :: string
  step :: string
  step_number :: "int option"
  total_steps :: "int option"
  status :: string
  message :: string
  data :: "pydict option"

text \<open>Where an update goes: \<^verbatim>\<open>send_update\<close> stores it and sends it to the web socket of the
  task, \<^verbatim>\<open>_run_graph_sync\<close> and \<^verbatim>\<open>run_agent_flow\<close> store it only.\<close>

datatype channel = Stored | Sent

type_synonym trace = "(channel \<times> update) list"

definition send_update ::
  "string \<Rightarrow> string \<Rightarrow> int \<Rightarrow> int \<Rightarrow> string \<Rightarrow> string \<Rightarrow> pydict option \<Rightarrow> channel \<times> update" where
  "send_update tid stp step_num total_n st msg dat =
     (Sent, \<lparr>update_task_id = tid, step = stp, step_number = Some step_num,
             total_steps = Some total_n, status = st, message = msg,
             data = Some (get_default [] dat)\<rparr>)"

text \<open>\<^verbatim>\<open>steps.index(node_name) + 1 if node_name in steps else 0\<close>.\<close>

fun step_index :: "string list \<Rightarrow> string \<Rightarrow> int" where
  "step_index [] name = 0"
| "step_index (s # rest) name =
     (if s = name then 1 else if name \<in> set rest then 1 + step_index rest name else 0)"

text \<open>\<^verbatim>\<open>_run_graph_sync\<close> (orchestrator.py, lines 51-68): the updates stored, and the
  accumulated outputs or the exception of the stream.\<close>

definition run_graph_sync ::
  "state_graph \<Rightarrow> pydict \<Rightarrow> string list \<Rightarrow> (string \<times> string) list \<Rightarrow> string \<Rightarrow> int
     \<Rightarrow> trace \<times> (exn + pydict)" where
  "run_graph_sync graph initial_state steps step_messages tid total_n =
     (case graph_stream graph initial_state of
        (events, err) \<Rightarrow>
          (map (\<lambda>(node_name, node_output).
                  (Stored,
                   \<lparr>update_task_id = tid, step = node_name,
                    step_number = Some (step_index steps node_name),
                    total_steps = Some total_n, status = ''processing'',
                    message = get_default (''Processing '' @ node_name @ ''...'')
                                (map_of step_messages node_name),
                    data = Some []\<rparr>))
               events,
           (case err of
              None \<Rightarrow> Inr (foldl AList.merge [] (map snd events))
            | Some e \<Rightarrow> Inl e)))"

text \<open>What every flow does after \<^verbatim>\<open>_run_graph_sync\<close>: an exception gives the failed update
  of the handler; a non-empty result is persisted and summarised (\<open>persist\<close>, which may
  raise) and gives the completed update.\<close>

definition finish_flow ::
  "(exn \<Rightarrow> string) \<Rightarrow> (pydict \<Rightarrow> exn + pydict) \<Rightarrow> string \<Rightarrow> int \<Rightarrow> string
     \<Rightarrow> exn + pydict \<Rightarrow> trace" where
  "finish_flow str_exn persist tid total_n done_message res =
     (case res of
        Inl e \<Rightarrow> [send_update tid ''error'' 0 total_n ''failed'' (''Error: '' @ str_exn e) None]
      | Inr result \<Rightarrow>
          (if result \<noteq> []
           then (case persist result of
                   Inl e \<Rightarrow>
                     [send_update tid ''error'' 0 total_n ''failed'' (''Error: '' @ str_exn e) None]
                 | Inr summary \<Rightarrow>
                     [send_update tid ''complete'' total_n total_n ''completed'' done_message
                        (Some summary)])
           else []))"

record deal =
  deal_row_id :: string
  deal_row_title :: string
  deal_row_client_name :: string
  deal_row_value :: rat
  deal_row_stage :: string
  deal_row_health_score :: int
  deal_row_description :: "string option"

text \<open>A row of \<^verbatim>\<open>documents\<close>. \<open>doc_source_title\<close> is the title the flow resolves for the
  document and \<open>doc_category_label\<close> is \<^verbatim>\<open>(doc.doc_category or "general").upper()\<close>.\<close>

record document =
  doc_id :: string
  doc_filename :: string
  doc_source_title :: string
  doc_category :: "string option"
  doc_category_label :: string
  doc_file_size :: int
  extracted_text :: "string option"

definition json_opt_str :: "string option \<Rightarrow> json" where
  "json_opt_str s = (case s of None \<Rightarrow> JNull | Some x \<Rightarrow> JStr x)"

definition has_text :: "document \<Rightarrow> bool" where
  "has_text doc = (get_default [] (extracted_text doc) \<noteq> [])"

definition doc_part :: "document \<Rightarrow> string" where
  "doc_part doc =
     ''=== ['' @ doc_category_label doc @ ''] '' @ doc_source_title doc @ '' ==='' @ [CHR 0x0A]
       @ get_default [] (extracted_text doc)"

definition employee_capability :: "employee \<Rightarrow> json" where
  "employee_capability emp =
     JObj [(''name'', JStr (emp_name emp)), (''role'', JStr (emp_role emp)),
           (''department'', JStr (emp_department emp)),
           (''skills'', JArr (map JStr (get_default [] (emp_skills emp)))),
           (''availability_percent'',
              JInt (if emp_availability_percent emp = 0 then 100
                    else emp_availability_percent emp)),
           (''hourly_rate'', JFloat (Finite (emp_hourly_rate emp)))]"

definition qualification_steps :: "string list" where
  "qualification_steps = [''ingest'', ''extract'', ''analyze'', ''match'', ''decide'']"

definition qualification_messages :: "(string \<times> string) list" where
  "qualification_messages =
     [(''ingest'', ''Parsing document structure...''),
      (''extract'', ''Extracting requirements and entities...''),
      (''analyze'', ''Analyzing deal viability...''),
      (''match'', ''Matching employee skills...''),
      (''decide'', ''Generating GO/NO-GO recommendation...'')]"

definition qualification_state ::
  "string \<Rightarrow> string \<Rightarrow> document list \<Rightarrow> employee list \<Rightarrow> json \<Rightarrow> pydict" where
  "qualification_state tid did all_docs employees company_profile =
     [(''deal_id'', JStr did), (''task_id'', JStr tid),
      (''document_text'',
         JStr (join [CHR 0x0A, CHR 0x0A] (map doc_part (filter has_text all_docs)))),
      (''document_metadata'',
         JObj [(''document_count'', JInt (int (length all_docs))),
               (''documents'',
                  JArr (map (\<lambda>doc. JObj [(''id'', JStr (doc_id doc)),
                                          (''filename'', JStr (doc_filename doc)),
                                          (''category'', json_opt_str (doc_category doc)),
                                          (''size'', JInt (doc_file_size doc))])
                          (filter has_text all_docs)))]),
      (''extracted_requirements'', JArr []), (''extracted_entities'', JObj []),
      (''employee_capabilities'',
         JArr (map employee_capability (filter emp_is_active employees))),
      (''company_profile'', company_profile),
      (''skill_matches'', JArr []), (''gap_analysis'', JObj []),
      (''recommendation'', JStr []), (''confidence_score'', JFloat (Finite 0)),
      (''positive_factors'', JArr []), (''risk_factors'', JArr []), (''conditions'', JArr []),
      (''reasoning'', JStr []), (''current_step'', JStr []), (''messages'', JArr []),
      (''errors'', JArr [])]"

text \<open>\<^verbatim>\<open>run_qualification_flow\<close> (orchestrator.py, lines 71-303). The database reads are
  arguments: the deal, the processed documents of the deal in creation order, the document
  named by \<open>document_id\<close> when there is one, and the employees. \<open>persist\<close> stands for lines
  188-297 (the rows written and the summary of the completed update).\<close>

definition run_qualification_flow ::
  "(exn \<Rightarrow> string) \<Rightarrow> state_graph \<Rightarrow> (pydict \<Rightarrow> exn + pydict) \<Rightarrow> string \<Rightarrow> string
     \<Rightarrow> deal option \<Rightarrow> document list \<Rightarrow> string option \<Rightarrow> document option \<Rightarrow> employee list
     \<Rightarrow> json \<Rightarrow> trace" where
  "run_qualification_flow str_exn graph persist tid did deal_row processed_docs document_id
      specific_doc employees company_profile =
     (case deal_row of
        None \<Rightarrow> [send_update tid ''error'' 0 5 ''failed'' ''Deal not found'' None]
      | Some d \<Rightarrow>
         (let all_docs =
                (if get_default [] document_id \<noteq> []
                      \<and> \<not> list_ex (\<lambda>doc. doc_id doc = get_default [] document_id) processed_docs
                 then (case specific_doc of
                         None \<Rightarrow> processed_docs
                       | Some doc \<Rightarrow> if has_text doc then doc # processed_docs
                                     else processed_docs)
                 else processed_docs)
          in if all_docs = []
             then [send_update tid ''error'' 0 5 ''failed''
                     ''No processed documents found for this deal'' None]
             else if strip (join [CHR 0x0A, CHR 0x0A] (map doc_part (filter has_text all_docs)))
                       = []
             then [send_update tid ''error'' 0 5 ''failed''
                     ''Documents found but no text could be extracted'' None]
             else
               send_update tid ''ingest'' 1 5 ''processing''
                 (''Ingesting '' @ str_int (int (length all_docs)) @ '' document(s)...'') None
               # (case run_graph_sync graph
                         (qualification_state tid did all_docs employees company_profile)
                         qualification_steps qualification_messages tid 5 of
                    (stored, res) \<Rightarrow>
                      stored @ finish_flow str_exn persist tid 5 ''Qualification complete'' res)))"

definition proposal_steps :: "string list" where
  "proposal_steps = [''retrieve'', ''generate'', ''comply'']"

definition proposal_messages :: "(string \<times> string) list" where
  "proposal_messages =
     [(''retrieve'', ''Searching knowledge base for relevant proposal sections...''),
      (''generate'', ''Generating proposal draft...''),
      (''comply'', ''Checking compliance against requirements...'')]"

text \<open>A row of \<^verbatim>\<open>deal_requirements\<close>: category, requirement text, confidence.\<close>

type_synonym requirement_row = "string \<times> string \<times> rat"

definition team_member :: "deal_assignment \<times> employee \<Rightarrow> json" where
  "team_member p =
     (case p of (assignment, emp) \<Rightarrow>
        JObj [(''name'', JStr (emp_name emp)),
              (''role'', JStr (if get_default [] (role_on_deal assignment) \<noteq> []
                               then get_default [] (role_on_deal assignment)
                               else emp_role emp)),
              (''skills'', JArr (map JStr (get_default [] (emp_skills emp)))),
              (''department'', JStr (emp_department emp)),
              (''hourly_rate'',
                 JFloat (Finite (if get_default 0 (hourly_rate_override assignment) \<noteq> 0
                                 then get_default 0 (hourly_rate_override assignment)
                                 else emp_hourly_rate emp))),
              (''allocation_percent'',
                 JInt (if allocation_percent assignment = 0 then 100
                       else allocation_percent assignment)),
              (''assigned_by'', JStr (if assigned_by assignment = [] then ''manual''
                                      else assigned_by assignment))])"

definition proposal_state ::
  "string \<Rightarrow> string \<Rightarrow> deal \<Rightarrow> requirement_row list \<Rightarrow> (deal_assignment \<times> employee) list
     \<Rightarrow> json \<Rightarrow> pydict" where
  "proposal_state tid did d requirements assignments company_profile =
     [(''deal_id'', JStr did), (''task_id'', JStr tid),
      (''deal_context'',
         JObj [(''title'', JStr (deal_row_title d)),
               (''client_name'', JStr (deal_row_client_name d)),
               (''deal_value'', JFloat (Finite (deal_row_value d))),
               (''description'', JStr (get_default [] (deal_row_description d)))]),
      (''requirements'',
         JArr (map (\<lambda>(category, text, confidence).
                      JObj [(''category'', JStr category), (''text'', JStr text),
                            (''confidence'', JFloat (Finite confidence))])
                 requirements)),
      (''team_assignments'', JArr (map team_member assignments)),
      (''company_profile'', company_profile),
      (''retrieved_sections'', JArr []), (''proposal_draft'', JStr []),
      (''proposal_sections'', JArr []), (''compliance_score'', JFloat (Finite 0)),
      (''compliance_issues'', JArr []), (''final_proposal'', JStr []),
      (''proposal_id'', JStr []), (''current_step'', JStr []), (''messages'', JArr []),
      (''errors'', JArr [])]"

text \<open>\<^verbatim>\<open>run_proposal_flow\<close> (lines 306-408); \<open>persist\<close> stands for lines 382-402.\<close>

definition run_proposal_flow ::
  "(exn \<Rightarrow> string) \<Rightarrow> state_graph \<Rightarrow> (pydict \<Rightarrow> exn + pydict) \<Rightarrow> string \<Rightarrow> string
     \<Rightarrow> deal option \<Rightarrow> requirement_row list \<Rightarrow> (deal_assignment \<times> employee) list
     \<Rightarrow> json \<Rightarrow> trace" where
  "run_proposal_flow str_exn graph persist tid did deal_row requirements assignments
      company_profile =
     (case deal_row of
        None \<Rightarrow> [send_update tid ''error'' 0 3 ''failed'' ''Deal not found'' None]
      | Some d \<Rightarrow>
          send_update tid ''retrieve'' 1 3 ''processing''
            ''Quinn is retrieving relevant proposal context...'' None
          # (case run_graph_sync graph
                    (proposal_state tid did d requirements assignments company_profile)
                    proposal_steps proposal_messages tid 3 of
               (stored, res) \<Rightarrow>
                 stored @ finish_flow str_exn persist tid 3 ''Proposal generated'' res))"

text \<open>An e-mail as the Gmail client returns it; a missing key reads as the empty string.\<close>

record email =
  email_date :: string
  email_from :: string
  email_subject :: string
  email_preview :: string

text \<open>The Gmail client: \<^verbatim>\<open>search_emails(query, max_results)\<close>.\<close>

type_synonym gmail = "string \<Rightarrow> nat \<Rightarrow> exn + email list"

text \<open>Lines 479-493: the e-mails as communications, newest first by the raw date.\<close>

definition to_comms :: "email list \<Rightarrow> communication list" where
  "to_comms emails =
     map (\<lambda>e. \<lparr>comm_type = ''email'', comm_date = slice_to 10 (email_date e),
               comm_from = email_from e, comm_subject = email_subject e,
               comm_content = email_preview e\<rparr>)
       (sort_desc email_date emails)"

text \<open>Lines 444-501: the communications fetched and \<^verbatim>\<open>no_emails_reason\<close>.
  \<open>oauth\<close> is the user of the stored Google token, \<open>get_gmail_client\<close> the client made for
  that user (\<^verbatim>\<open>None\<close> when the token cannot be refreshed).\<close>

definition fetch_comms ::
  "(exn \<Rightarrow> string) \<Rightarrow> deal \<Rightarrow> string \<Rightarrow> string option \<Rightarrow> (string \<Rightarrow> exn + gmail option)
     \<Rightarrow> communication list \<times> string option" where
  "fetch_comms str_exn d after_filter oauth get_gmail_client =
     (case oauth of
        None \<Rightarrow> ([], Some ''Gmail not connected. Connect your Google account in Settings.'')
      | Some user_id \<Rightarrow>
     (case get_gmail_client user_id of
        Inl e \<Rightarrow> ([], Some (''Gmail fetch failed: '' @ str_exn e))
      | Inr None \<Rightarrow>
          ([], Some (''Gmail token expired and could not be refreshed. ''
                     @ ''Please reconnect in Settings.''))
      | Inr (Some search_emails) \<Rightarrow>
     (let client_name = deal_row_client_name d
      in
     (case (if client_name \<noteq> []
            then search_emails (client_name @ '' after:'' @ after_filter) 15
            else Inr []) of
        Inl e \<Rightarrow> ([], Some (''Gmail fetch failed: '' @ str_exn e))
      | Inr found \<Rightarrow>
     (case (if client_name = [] \<or> found = [] then search_emails ''newer_than:3d'' 5
            else Inr found) of
        Inl e \<Rightarrow> ([], Some (''Gmail fetch failed: '' @ str_exn e))
      | Inr emails \<Rightarrow>
          (if to_comms emails = []
           then ([], Some (''No new emails found for '' @ [CHR 0x27] @ client_name
                           @ [CHR 0x27] @ '' since last monitoring run.''))
           else (to_comms emails, None)))))))"

definition monitoring_steps :: "string list" where
  "monitoring_steps = [''sentiment'', ''health'', ''alert'', ''recovery'']"

definition monitoring_messages :: "(string \<times> string) list" where
  "monitoring_messages =
     [(''sentiment'', ''Analyzing communication sentiment...''),
      (''health'', ''Calculating deal health score...''),
      (''alert'', ''Detecting potential risks...''),
      (''recovery'', ''Generating recovery strategy...'')]"

definition health_or_70 :: "deal \<Rightarrow> int" where
  "health_or_70 d = (if deal_row_health_score d = 0 then 70 else deal_row_health_score d)"

definition comm_json :: "communication \<Rightarrow> json" where
  "comm_json c =
     JObj [(''type'', JStr (comm_type c)), (''date'', JStr (comm_date c)),
           (''from'', JStr (comm_from c)), (''subject'', JStr (comm_subject c)),
           (''content'', JStr (comm_content c))]"

definition monitoring_initial_state :: "string \<Rightarrow> string \<Rightarrow> deal \<Rightarrow> communication list \<Rightarrow> pydict" where
  "monitoring_initial_state tid did d real_comms =
     [(''deal_id'', JStr did), (''task_id'', JStr tid),
      (''deal_data'',
         JObj [(''title'', JStr (deal_row_title d)),
               (''client_name'', JStr (deal_row_client_name d)),
               (''deal_value'', JFloat (Finite (deal_row_value d))),
               (''health_score'', JInt (health_or_70 d)),
               (''stage'', JStr (deal_row_stage d))]),
      (''recent_communications'', JArr (map comm_json real_comms)),
      (''sentiment_scores'', JArr []), (''overall_sentiment'', JFloat (Finite 0)),
      (''health_score'', JInt 70), (''trend'', JStr ''stable''),
      (''detected_alerts'', JArr []), (''recovery_email'', JStr []),
      (''recovery_actions'', JArr []), (''current_step'', JStr []), (''messages'', JArr []),
      (''errors'', JArr [])]"

text \<open>\<^verbatim>\<open>run_monitoring_flow\<close> (lines 411-642); \<open>persist\<close> stands for lines 550-636. With no
  communication the flow finishes early (lines 503-512) and the graph is not run.\<close>

definition run_monitoring_flow ::
  "(exn \<Rightarrow> string) \<Rightarrow> state_graph \<Rightarrow> (pydict \<Rightarrow> exn + pydict) \<Rightarrow> string \<Rightarrow> string
     \<Rightarrow> deal option \<Rightarrow> string \<Rightarrow> string option \<Rightarrow> (string \<Rightarrow> exn + gmail option) \<Rightarrow> trace" where
  "run_monitoring_flow str_exn graph persist tid did deal_row after_filter oauth
      get_gmail_client =
     (case deal_row of
        None \<Rightarrow> [send_update tid ''error'' 0 4 ''failed'' ''Deal not found'' None]
      | Some d \<Rightarrow>
          send_update tid ''sentiment'' 1 4 ''processing'' ''Fetching emails from Gmail...'' None
          # (case fetch_comms str_exn d after_filter oauth get_gmail_client of
               (real_comms, no_emails_reason) \<Rightarrow>
                 (if real_comms = []
                  then [send_update tid ''complete'' 4 4 ''completed''
                          (''Monitoring complete '' @ em_dash @ '' no relevant emails found'')
                          (Some [(''health_score'', JInt (health_or_70 d)),
                                 (''sentiment'', JFloat (Finite 0)),
                                 (''alerts_generated'', JInt 0),
                                 (''no_emails_reason'', json_opt_str no_emails_reason)])]
                  else (case run_graph_sync graph
                               (monitoring_initial_state tid did d real_comms)
                               monitoring_steps monitoring_messages tid 4 of
                          (stored, res) \<Rightarrow>
                            stored
                            @ finish_flow str_exn persist tid 4 ''Monitoring complete'' res))))"

text \<open>The record \<^verbatim>\<open>run_agent_flow\<close> stores before it routes (lines 648-653).\<close>

definition initializing :: "string \<Rightarrow> string \<Rightarrow> channel \<times> update" where
  "initializing tid flow_type =
     (Stored, \<lparr>update_task_id = tid, step = ''initializing'', step_number = None,
               total_steps = None, status = ''processing'',
               message = ''Starting '' @ flow_type @ '' flow...'', data = None\<rparr>)"

text \<open>The stages that completed in a run: the steps of the updates \<^verbatim>\<open>_run_graph_sync\<close>
  stored, one per event of the stream.\<close>

definition stages_run :: "trace \<Rightarrow> string list" where
  "stages_run t = map (step \<circ> snd) (filter (\<lambda>p. fst p = Stored) t)"

definition step_numbers :: "trace \<Rightarrow> int option list" where
  "step_numbers t = map (step_number \<circ> snd) t"

text \<open>The stage number the status endpoint reports for an update
  (\<^verbatim>\<open>orch_status.get("step_number", 0)\<close> in routers/agents.py).\<close>

definition reported_step_number :: "channel \<times> update \<Rightarrow> int" where
  "reported_step_number p = get_default 0 (step_number (snd p))"

text \<open>\<^verbatim>\<open>run_agent_flow\<close> (lines 645-663); the three arguments are the traces of the three
  flow functions on the inputs of the run.\<close>

definition run_agent_flow :: "string \<Rightarrow> string \<Rightarrow> trace \<Rightarrow> trace \<Rightarrow> trace \<Rightarrow> trace" where
  "run_agent_flow tid flow_type qualification proposal monitoring =
     initializing tid flow_type
     # (if flow_type = ''qualification'' then qualification
        else if flow_type = ''proposal'' then proposal
        else if flow_type = ''monitoring'' then monitoring
        else [send_update tid ''error'' 0 0 ''failed'' (''Unknown flow type: '' @ flow_type)
                None])"

text \<open>What holds of the updates of a flow with \<open>n\<close> stages: every update carries the total
  \<open>n\<close>; when the last update is completed, its stage number is \<open>n\<close> and the stage numbers
  never decrease along the run; when it is failed, its stage number is 0.\<close>

definition flow_trace_ok :: "int \<Rightarrow> trace \<Rightarrow> bool" where
  "flow_trace_ok n t =
     (t \<noteq> []
      \<and> (\<forall>p \<in> set t. total_steps (snd p) = Some n)
      \<and> (status (snd (last t)) = ''completed'' \<longrightarrow>
            step_number (snd (last t)) = Some n \<and> sorted (map reported_step_number t))
      \<and> (status (snd (last t)) = ''failed'' \<longrightarrow> step_number (snd (last t)) = Some 0))"

text \<open>A stage that returns its name as the current step, and one that raises.\<close>

definition ok_node :: "string \<Rightarrow> node" where
  "ok_node name = (\<lambda>state. Inr [(''current_step'', JStr name)])"

definition bad_node :: node where
  "bad_node = (\<lambda>state. Inl AttributeError)"

definition example_deal_row :: deal where
  "example_deal_row =
     \<lparr>deal_row_id = ''d1'', deal_row_title = ''Portal'', deal_row_client_name = ''Acme'',
      deal_row_value = 1000, deal_row_stage = ''proposal'', deal_row_health_score = 70,
      deal_row_description = None\<rparr>"

definition example_document :: document where
  "example_document =
     \<lparr>doc_id = ''doc1'', doc_filename = ''rfp.pdf'', doc_source_title = ''RFP'',
      doc_category = None, doc_category_label = ''GENERAL'', doc_file_size = 10,
      extracted_text = Some ''We need a portal''\<rparr>"

definition example_qualification_run :: "node \<Rightarrow> trace" where
  "example_qualification_run extract =
     run_qualification_flow (\<lambda>e. ''error'')
       (build_qualification_graph (ok_node ''ingest'') extract (ok_node ''analyze'')
          (ok_node ''match'') (ok_node ''decide''))
       (\<lambda>result. Inr []) ''t1'' ''d1'' (Some example_deal_row) [example_document] None None []
       JNull"

definition example_monitoring_run :: "string option \<Rightarrow> email list \<Rightarrow> trace" where
  "example_monitoring_run oauth emails =
     run_monitoring_flow (\<lambda>e. ''error'')
       (build_monitoring_graph (ok_node ''sentiment'') (ok_node ''health'') (ok_node ''alert'')
          (ok_node ''recovery''))
       (\<lambda>result. Inr []) ''t1'' ''d1'' (Some example_deal_row) ''2025/01/01'' oauth
       (\<lambda>user_id. Inr (Some (\<lambda>query max_results. Inr emails)))"

definition example_email :: email where
  "example_email =
     \<lparr>email_date = ''2025-01-01'', email_from = ''a@b.c'', email_subject = ''Hi'',
      email_preview = ''Hello''\<rparr>"

definition example_communication :: communication where
  "example_communication =
     \<lparr>comm_type = ''email'', comm_date = ''2025-01-01'', comm_from = ''a@b.c'',
      comm_subject = ''Hi'', comm_content = ''Hello''\<rparr>"

section \<open>Properties\<close>

subsection \<open>Health stage\<close>

lemma round_double_not_NaN: "round_double x \<noteq> NaN"
  by (simp add: round_double_def Let_def)

lemma float_mul_Finite_not_NaN: "float_mul (Finite x) (Finite y) \<noteq> NaN"
  by (simp add: round_double_not_NaN)

text \<open>A product that overflows makes \<^verbatim>\<open>int\<close> raise, and the exception leaves the stage.\<close>

lemma health_node_overflow:
  "float_mul (round_double (overall_sentiment state)) (Finite 15) = PosInf
     \<or> float_mul (round_double (overall_sentiment state)) (Finite 15) = NegInf
   \<Longrightarrow> health_node state = Inl OverflowError"
  by (auto simp: health_node_def Let_def)

text \<open>
  Claim C3, as the code has it: the new health score is the base score plus
  \<^verbatim>\<open>int(sentiment * 15)\<close>, that is the product of the two doubles, rounded as Python rounds
  it, truncated toward zero, clamped into 0..100. The adjustment is the floor of that
  product whenever the product is not negative, and the score is the one the specification
  names whenever the sentiment is not negative and its product with 15 is exact. The trend
  is up exactly when the new score exceeds the previous score by more than 5, down exactly
  when it is more than 5 below, and stable otherwise.
\<close>

theorem health_node_score:
  fixes state :: monitoring_state
  defines "base \<equiv> deal_health_score (deal_data state)"
      and "s \<equiv> overall_sentiment state"
      and "prev \<equiv> (case previous_health_score (deal_data state) of
                      None \<Rightarrow> deal_health_score (deal_data state) | Some p \<Rightarrow> p)"
  assumes p: "float_mul (round_double s) (Finite 15) = Finite p"
  shows "\<exists>out. health_node state = Inr out
       \<and> new_health_score out = max 0 (min 100 (base + (if 0 \<le> p then \<lfloor>p\<rfloor> else \<lceil>p\<rceil>)))
       \<and> 0 \<le> new_health_score out \<and> new_health_score out \<le> 100
       \<and> (0 \<le> p \<longrightarrow> new_health_score out = max 0 (min 100 (base + \<lfloor>p\<rfloor>)))
       \<and> (p = s * 15 \<and> 0 \<le> s \<longrightarrow> new_health_score out = spec_health_score base s)
       \<and> (new_trend out = ''up'') = (new_health_score out > prev + 5)
       \<and> (new_trend out = ''down'') = (new_health_score out < prev - 5)
       \<and> (new_trend out = ''stable'')
           = (\<not> new_health_score out > prev + 5 \<and> \<not> new_health_score out < prev - 5)"
proof -
  define h where "h = max 0 (min 100 (base + (if 0 \<le> p then \<lfloor>p\<rfloor> else \<lceil>p\<rceil>)))"
  define t where "t = (if h > prev + 5 then ''up'' else if h < prev - 5 then ''down''
                       else ''stable'')"
  define out where
    "out = \<lparr>new_health_score = h, new_trend = t, health_current_step = ''health''\<rparr>"
  have e: "health_node state = Inr out"
    using p unfolding out_def t_def h_def base_def s_def prev_def
    by (simp add: health_node_def Let_def)
  have hs: "new_health_score out = h" and ts: "new_trend out = t"
    by (simp_all add: out_def)
  have rg: "0 \<le> h \<and> h \<le> 100" unfolding h_def by simp
  have fl: "0 \<le> p \<longrightarrow> h = max 0 (min 100 (base + \<lfloor>p\<rfloor>))"
    unfolding h_def by simp
  have sp: "p = s * 15 \<and> 0 \<le> s \<longrightarrow> h = spec_health_score base s"
    unfolding h_def spec_health_score_def by simp
  have tr: "(t = ''up'') = (h > prev + 5) \<and> (t = ''down'') = (h < prev - 5)
       \<and> (t = ''stable'') = (\<not> h > prev + 5 \<and> \<not> h < prev - 5)"
    unfolding t_def by auto
  have "health_node state = Inr out
       \<and> new_health_score out = max 0 (min 100 (base + (if 0 \<le> p then \<lfloor>p\<rfloor> else \<lceil>p\<rceil>)))
       \<and> 0 \<le> new_health_score out \<and> new_health_score out \<le> 100
       \<and> (0 \<le> p \<longrightarrow> new_health_score out = max 0 (min 100 (base + \<lfloor>p\<rfloor>)))
       \<and> (p = s * 15 \<and> 0 \<le> s \<longrightarrow> new_health_score out = spec_health_score base s)
       \<and> (new_trend out = ''up'') = (new_health_score out > prev + 5)
       \<and> (new_trend out = ''down'') = (new_health_score out < prev - 5)
       \<and> (new_trend out = ''stable'')
           = (\<not> new_health_score out > prev + 5 \<and> \<not> new_health_score out < prev - 5)"
    unfolding hs ts using e rg fl sp tr h_def by blast
  then show ?thesis by blast
qed

text \<open>
  Claim C3 as stated fails for a negative sentiment: base score 70 and sentiment -0.5 give
  70 + int(-7.5) = 63 in the code, while the floor of -7.5 is -8 and would give 62.
\<close>

theorem health_floor_counterexample:
  "health_node (example_state (- 1 / 2) 70 [])
     = Inr \<lparr>new_health_score = 63, new_trend = ''down'', health_current_step = ''health''\<rparr>
   \<and> spec_health_score (deal_health_score (deal_data (example_state (- 1 / 2) 70 []))) (- 1 / 2)
       = 62"
  by code_simp

lemma product_of_two_fifths: "float_mul (round_double (2 / 5)) (Finite 15) = Finite 6"
  by code_simp

theorem health_node_score_witness:
  "float_mul (round_double (2 / 5)) (Finite 15) = Finite 6
   \<and> health_node (example_state (2 / 5) 70 [])
       = Inr \<lparr>new_health_score = 76, new_trend = ''up'', health_current_step = ''health''\<rparr>
   \<and> spec_health_score 70 (2 / 5) = 76"
proof -
  have a: "overall_sentiment (example_state (2 / 5) 70 []) = 2 / 5"
    "deal_health_score (deal_data (example_state (2 / 5) 70 [])) = 70"
    "previous_health_score (deal_data (example_state (2 / 5) 70 [])) = None"
    by (simp_all add: example_state_def example_deal_def)
  have p: "float_mul (round_double (overall_sentiment (example_state (2 / 5) 70 [])))
             (Finite 15) = Finite 6"
    unfolding a by (rule product_of_two_fifths)
  from health_node_score [OF p]
  obtain out where o: "health_node (example_state (2 / 5) 70 []) = Inr out"
    and h: "new_health_score out = 76"
    and u: "(new_trend out = ''up'') = (new_health_score out > 70 + 5)"
    and sp: "new_health_score out = spec_health_score 70 (2 / 5)"
    unfolding a by auto
  have st: "health_current_step out = ''health''"
    using o by (auto simp: health_node_def Let_def split: sum.splits)
  have "out = \<lparr>new_health_score = 76, new_trend = ''up'', health_current_step = ''health''\<rparr>"
    using h u st by (cases out) simp
  then show ?thesis using o h sp product_of_two_fifths by simp
qed

text \<open>The product is rounded before it is truncated: the double printed as
  0.3333333333333333 times 15 is the double 5.0, so base score 70 gives 75.\<close>

lemma health_node_rounds_product:
  "health_node (example_state (3333333333333333 / 10000000000000000) 70 [])
     = Inr \<lparr>new_health_score = 75, new_trend = ''stable'', health_current_step = ''health''\<rparr>"
  by code_simp

subsection \<open>Alert stage\<close>

lemma alert_type_simps [simp]:
  "alert_type (sentiment_drop_alert f dd s) = ''sentiment_drop''"
  "alert_type (deadline_risk_alert h) = ''deadline_risk''"
  "alert_type (positive_update_alert f dd s scs) = ''positive_update''"
  by (simp_all add: sentiment_drop_alert_def deadline_risk_alert_def positive_update_alert_def Let_def)

lemma severity_simps [simp]:
  "severity (sentiment_drop_alert f dd s) = (if s < - (6 / 10) then ''critical'' else ''high'')"
  "severity (deadline_risk_alert h) = ''high''"
  "severity (positive_update_alert f dd s scs) = ''info''"
  by (simp_all add: sentiment_drop_alert_def deadline_risk_alert_def positive_update_alert_def Let_def)

lemma competitor_alerts_type:
  "a \<in> set (competitor_alerts scores) \<Longrightarrow>
     alert_type a = ''competitor_mention'' \<and> severity a = ''medium''"
  by (induction scores) (auto split: option.splits)

lemma competitor_signal_None:
  "(competitor_signal sigs = None) = (\<not> list_ex (\<lambda>signal. contains ''competitor'' (lower signal)) sigs)"
  by (induction sigs) auto

lemma competitor_signal_Some:
  "competitor_signal sigs = Some x \<Longrightarrow> list_ex (\<lambda>signal. contains ''competitor'' (lower signal)) sigs"
  by (induction sigs) (auto split: if_splits)

lemma competitor_alerts_Nil:
  "(competitor_alerts scores = []) = (\<not> mentions_competitor scores)"
  by (induction scores)
     (auto simp: mentions_competitor_def competitor_signal_None [symmetric]
           dest: competitor_signal_Some split: option.splits)

lemma filter_competitor_other:
  "t \<noteq> ''competitor_mention'' \<Longrightarrow> filter (\<lambda>a. alert_type a = t) (competitor_alerts scores) = []"
  by (auto simp: filter_empty_conv dest: competitor_alerts_type)

lemma alert_node_alerts:
  "new_detected_alerts (alert_node fmt2f state) =
     (if overall_sentiment state < - (3 / 10)
      then [sentiment_drop_alert fmt2f (deal_data state) (overall_sentiment state)] else [])
     @ (if health_score state < 50 then [deadline_risk_alert (health_score state)] else [])
     @ competitor_alerts (sentiment_scores state)
     @ (if \<not> overall_sentiment state < - (3 / 10) \<and> \<not> health_score state < 50
           \<and> \<not> mentions_competitor (sentiment_scores state) \<and> overall_sentiment state > 2 / 10
        then [positive_update_alert fmt2f (deal_data state) (overall_sentiment state)
                (sentiment_scores state)]
        else [])"
  by (simp add: alert_node_def Let_def competitor_alerts_Nil)

lemma list_ex_competitor_alerts:
  "list_ex (\<lambda>a. alert_type a = ''competitor_mention'') (competitor_alerts scores)
     = mentions_competitor scores"
proof (cases "competitor_alerts scores")
  case Nil
  then show ?thesis using competitor_alerts_Nil [of scores] by simp
next
  case (Cons a as)
  then have "a \<in> set (competitor_alerts scores)" by simp
  then have "alert_type a = ''competitor_mention''" by (simp add: competitor_alerts_type)
  moreover have "mentions_competitor scores"
    using Cons competitor_alerts_Nil [of scores] by simp
  ultimately show ?thesis using Cons by simp
qed

lemma length_competitor_alerts:
  "length (competitor_alerts scores)
     = length (filter (\<lambda>score. list_ex (\<lambda>signal. contains ''competitor'' (lower signal))
                          (signals score)) scores)"
  by (induction scores)
     (auto simp: competitor_signal_None [symmetric] dest: competitor_signal_Some
           split: option.splits)

lemma filter_competitor_alerts:
  "filter (\<lambda>a. alert_type a = ''competitor_mention'') (competitor_alerts scores)
     = competitor_alerts scores"
  by (auto simp: filter_id_conv dest: competitor_alerts_type)

text \<open>
  Claim C4: the alert stage derives its alerts by the fixed thresholds. A sentiment below
  -0.3 gives exactly one sentiment_drop alert, critical below -0.6 and high otherwise; a
  health score below 50 gives exactly one deadline_risk alert at high; a competitor_mention
  alert is present exactly when some signal of some sentiment score contains "competitor"
  (case-insensitively), one for each sentiment score with such a signal, and every such
  alert has severity medium; exactly one
  positive_update alert at info is produced when none of the others was and the sentiment
  is above 0.2; and no alert of any other type is produced.
\<close>

theorem alert_node_thresholds:
  fixes fmt2f :: "rat \<Rightarrow> string" and state :: monitoring_state
  defines "s \<equiv> overall_sentiment state"
      and "h \<equiv> health_score state"
      and "dd \<equiv> deal_data state"
      and "scores \<equiv> sentiment_scores state"
      and "A \<equiv> new_detected_alerts (alert_node fmt2f state)"
  shows "filter (\<lambda>a. alert_type a = ''sentiment_drop'') A =
           (if s < - (3 / 10) then [sentiment_drop_alert fmt2f dd s] else [])
       \<and> severity (sentiment_drop_alert fmt2f dd s) = (if s < - (6 / 10) then ''critical'' else ''high'')
       \<and> filter (\<lambda>a. alert_type a = ''deadline_risk'') A =
           (if h < 50 then [deadline_risk_alert h] else [])
       \<and> severity (deadline_risk_alert h) = ''high''
       \<and> list_ex (\<lambda>a. alert_type a = ''competitor_mention'') A = mentions_competitor scores
       \<and> length (filter (\<lambda>a. alert_type a = ''competitor_mention'') A)
           = length (filter (\<lambda>score. list_ex (\<lambda>signal. contains ''competitor'' (lower signal))
                                (signals score)) scores)
       \<and> (\<forall>a \<in> set A. alert_type a = ''competitor_mention'' \<longrightarrow> severity a = ''medium'')
       \<and> filter (\<lambda>a. alert_type a = ''positive_update'') A =
           (if \<not> s < - (3 / 10) \<and> \<not> h < 50 \<and> \<not> mentions_competitor scores \<and> s > 2 / 10
            then [positive_update_alert fmt2f dd s scores] else [])
       \<and> severity (positive_update_alert fmt2f dd s scores) = ''info''
       \<and> (\<forall>a \<in> set A. alert_type a \<in>
            {''sentiment_drop'', ''deadline_risk'', ''competitor_mention'', ''positive_update''})"
proof -
  note A = alert_node_alerts [of fmt2f state, folded s_def h_def dd_def scores_def A_def]
  have c1: "filter (\<lambda>a. alert_type a = ''sentiment_drop'') A =
           (if s < - (3 / 10) then [sentiment_drop_alert fmt2f dd s] else [])"
    unfolding A by (simp add: filter_competitor_other)
  have c2: "filter (\<lambda>a. alert_type a = ''deadline_risk'') A =
           (if h < 50 then [deadline_risk_alert h] else [])"
    unfolding A by (simp add: filter_competitor_other)
  have c3: "list_ex (\<lambda>a. alert_type a = ''competitor_mention'') A = mentions_competitor scores"
    unfolding A by (simp add: list_ex_competitor_alerts)
  have c3': "length (filter (\<lambda>a. alert_type a = ''competitor_mention'') A)
           = length (filter (\<lambda>score. list_ex (\<lambda>signal. contains ''competitor'' (lower signal))
                                (signals score)) scores)"
    unfolding A by (simp add: filter_competitor_alerts length_competitor_alerts)
  have c4: "\<forall>a \<in> set A. alert_type a = ''competitor_mention'' \<longrightarrow> severity a = ''medium''"
    unfolding A by (auto dest: competitor_alerts_type)
  have c5: "filter (\<lambda>a. alert_type a = ''positive_update'') A =
           (if \<not> s < - (3 / 10) \<and> \<not> h < 50 \<and> \<not> mentions_competitor scores \<and> s > 2 / 10
            then [positive_update_alert fmt2f dd s scores] else [])"
    unfolding A by (simp add: filter_competitor_other)
  have c6: "\<forall>a \<in> set A. alert_type a \<in>
            {''sentiment_drop'', ''deadline_risk'', ''competitor_mention'', ''positive_update''}"
    unfolding A by (auto dest: competitor_alerts_type)
  show ?thesis using c1 c2 c3 c3' c4 c5 c6 by simp
qed

theorem alert_node_thresholds_witness:
  "mentions_competitor [\<lparr>signals = [''Competitor X was mentioned'']\<rparr>]
   \<and> map severity (filter (\<lambda>a. alert_type a = ''competitor_mention'')
        (new_detected_alerts (alert_node (\<lambda>x. ''-0.70'')
           (example_state (- 7 / 10) 40 [\<lparr>signals = [''Competitor X was mentioned'']\<rparr>]))))
       = [''medium'']
   \<and> map alert_type (new_detected_alerts (alert_node (\<lambda>x. ''-0.70'')
           (example_state (- 7 / 10) 40 [\<lparr>signals = [''Competitor X was mentioned'']\<rparr>])))
       = [''sentiment_drop'', ''deadline_risk'', ''competitor_mention'']"
proof -
  have m: "mentions_competitor [\<lparr>signals = [''Competitor X was mentioned'']\<rparr>]"
    by code_simp
  have e: "map alert_type (new_detected_alerts (alert_node (\<lambda>x. ''-0.70'')
           (example_state (- 7 / 10) 40 [\<lparr>signals = [''Competitor X was mentioned'']\<rparr>])))
       = [''sentiment_drop'', ''deadline_risk'', ''competitor_mention'']"
    by code_simp
  have f: "map severity (filter (\<lambda>a. alert_type a = ''competitor_mention'')
        (new_detected_alerts (alert_node (\<lambda>x. ''-0.70'')
           (example_state (- 7 / 10) 40 [\<lparr>signals = [''Competitor X was mentioned'']\<rparr>]))))
       = [''medium'']"
    by code_simp
  show ?thesis
    using alert_node_thresholds [of "\<lambda>x. ''-0.70''"
        "example_state (- 7 / 10) 40 [\<lparr>signals = [''Competitor X was mentioned'']\<rparr>]"] m e f
    by simp
qed

text \<open>
  Claim C10: a positive_update alert excludes every other alert: when the detected-alert
  list holds a positive_update entry, the list has length exactly 1.
\<close>

theorem positive_update_exclusive:
  "list_ex (\<lambda>a. alert_type a = ''positive_update'') (new_detected_alerts (alert_node fmt2f state))
     \<Longrightarrow> length (new_detected_alerts (alert_node fmt2f state)) = 1"
  unfolding alert_node_alerts
  by (auto simp: list_ex_iff competitor_alerts_Nil dest: competitor_alerts_type split: if_splits)


theorem positive_update_exclusive_witness:
  "list_ex (\<lambda>a. alert_type a = ''positive_update'')
     (new_detected_alerts (alert_node (\<lambda>x. ''0.50'') (example_state (1 / 2) 70 [])))
   \<and> length (new_detected_alerts (alert_node (\<lambda>x. ''0.50'') (example_state (1 / 2) 70 []))) = 1"
proof -
  have e: "list_ex (\<lambda>a. alert_type a = ''positive_update'')
     (new_detected_alerts (alert_node (\<lambda>x. ''0.50'') (example_state (1 / 2) 70 [])))"
    by code_simp
  show ?thesis
    using positive_update_exclusive [OF e] e by simp
qed


subsection \<open>Capability matching and auto-assignment\<close>

lemma sorted_sort_desc: "sorted (rev (map f (sort_desc f xs)))"
  by (simp add: sort_desc_def rev_map [symmetric])

lemma filter_sort_desc: "filter (\<lambda>y. f y = k) (sort_desc f xs) = filter (\<lambda>y. f y = k) xs"
  by (simp add: sort_desc_def rev_filter [symmetric] sort_key_stable)

lemma set_sort_desc: "set (sort_desc f xs) = set xs"
  by (simp add: sort_desc_def)

text \<open>Words break at every white-space character of Unicode and are measured in code
  points: a no-break space (U+00A0) separates two words, and a word of three accented
  letters is not a long word.\<close>

lemma long_words_unicode:
  "long_words (''react'' @ [CHR 0xC2, CHR 0xA0] @ ''native'') = [''react'', ''native'']"
  "long_words [CHR 0xC3, CHR 0xA9, CHR 0xC3, CHR 0xA9, CHR 0xC3, CHR 0xA9] = []"
  "strip ([CHR 0xC2, CHR 0xA0] @ ''a b'' @ [CHR 0xE3, CHR 0x80, CHR 0x80, CHR 0x0A]) = ''a b''"
  by code_simp+

lemma score_employees_eq:
  "score_employees lw kw emps
     = map (staff_of lw kw) (filter (\<lambda>e. emp_terms lw e \<inter> kw \<noteq> {}) emps)"
  by (induction emps) auto

lemma finite_emp_terms: "finite (emp_terms lw e)"
  by (simp add: emp_terms_def Let_def)

lemma match_staff_eq:
  "match_staff lw employees reqs gap =
     sort_desc match_score
       (map (staff_of lw (required_keywords lw reqs gap))
          (filter (\<lambda>e. emp_terms lw e \<inter> required_keywords lw reqs gap \<noteq> {})
             (filter emp_is_active employees)))"
proof (cases "filter emp_is_active employees = []")
  case True
  then show ?thesis by (simp add: match_staff_def sort_desc_def)
next
  case False
  then show ?thesis by (simp add: match_staff_def score_employees_eq)
qed

text \<open>
  Claim C2, as the code has it: the match score of a roster record is the size of the
  intersection of its token set (lower-cased skills and lower-cased role words longer than
  3) with the keyword set \<open>required_keywords\<close>, which holds the long words of every
  requirement text, every requirement category as a whole, and the long words of the gap
  analysis' strong areas, gap areas and key roles. Only active records with a non-empty
  intersection are ranked; the ranking is in descending order of score, and records of
  equal score keep the order of the roster. This holds whatever \<^verbatim>\<open>str.lower\<close> maps a string
  to.
\<close>

theorem match_staff_ranking:
  fixes str_lower :: "string \<Rightarrow> string"
    and employees :: "employee list" and reqs :: "requirement list" and gap :: gap_analysis
  defines "kw \<equiv> required_keywords str_lower reqs gap"
      and "R \<equiv> match_staff str_lower employees reqs gap"
  shows "(\<forall>k. filter (\<lambda>s. match_score s = k) R =
              map (staff_of str_lower kw)
                (filter (\<lambda>e. emp_terms str_lower e \<inter> kw \<noteq> {}
                             \<and> int (card (emp_terms str_lower e \<inter> kw)) = k)
                   (filter emp_is_active employees)))
       \<and> (\<forall>s \<in> set R. match_score s = int (card (matching_skills s))
                        \<and> matching_skills s \<noteq> {} \<and> 0 < match_score s)
       \<and> sorted (rev (map match_score R))"
proof -
  have R: "R = sort_desc match_score
       (map (staff_of str_lower kw)
          (filter (\<lambda>e. emp_terms str_lower e \<inter> kw \<noteq> {}) (filter emp_is_active employees)))"
    unfolding R_def kw_def by (rule match_staff_eq)
  have a: "\<forall>k. filter (\<lambda>s. match_score s = k) R =
              map (staff_of str_lower kw)
                (filter (\<lambda>e. emp_terms str_lower e \<inter> kw \<noteq> {}
                             \<and> int (card (emp_terms str_lower e \<inter> kw)) = k)
                   (filter emp_is_active employees))"
    unfolding R filter_sort_desc
    by (auto simp: filter_map o_def staff_of_def intro!: arg_cong [where f = "map _"] filter_cong)
  have b: "\<forall>s \<in> set R. match_score s = int (card (matching_skills s))
                        \<and> matching_skills s \<noteq> {} \<and> 0 < match_score s"
    unfolding R set_sort_desc
    by (auto simp: staff_of_def card_gt_0_iff finite_emp_terms)
  have c: "sorted (rev (map match_score R))"
    unfolding R by (rule sorted_sort_desc)
  show ?thesis using a b c by blast
qed

lemma add_assignments_props:
  "length (add_assignments uuid4 n did ms) = length ms"
  "map asg_employee_id (add_assignments uuid4 n did ms) = map staff_employee_id ms"
  "map allocation_percent (add_assignments uuid4 n did ms) = map (\<lambda>s. min (staff_availability_percent s) 100) ms"
  "map asg_match_score (add_assignments uuid4 n did ms) = map (\<lambda>s. Some (match_score s)) ms"
  "filter (\<lambda>a. asg_deal_id a = did \<and> assigned_by a = ''auto'') (add_assignments uuid4 n did ms) = add_assignments uuid4 n did ms"
  "filter (\<lambda>a. \<not> (asg_deal_id a = did \<and> assigned_by a = ''auto'')) (add_assignments uuid4 n did ms) = []"
  "filter (\<lambda>a. asg_deal_id a = did \<longrightarrow> assigned_by a \<noteq> ''auto'') (add_assignments uuid4 n did ms) = []"
  by (induction ms arbitrary: n) (simp_all add: new_assignment_def)

lemma sorted_rev_take: "sorted (rev xs) \<Longrightarrow> sorted (rev (take n xs))"
proof -
  assume s: "sorted (rev xs)"
  have "rev xs = rev (drop n xs) @ rev (take n xs)"
    by (metis append_take_drop_id rev_append)
  then show ?thesis using s by (metis sorted_append)
qed

text \<open>
  Claim C5: when the ranking is not empty, the auto-assignment removes every prior
  assignment of the deal made by "auto", leaves every other row of the table as it was,
  and adds exactly min(5, number of ranked records) assignments made by "auto", for the
  first records of the ranking in its descending order, each with allocation percent
  min(availability percent, 100).
\<close>

theorem auto_assign_policy:
  fixes uuid :: "nat \<Rightarrow> string" and did :: string and table :: "deal_assignment list"
  defines "is_auto \<equiv> (\<lambda>a. asg_deal_id a = did \<and> assigned_by a = ''auto'')"
  assumes ne: "match_staff str_lower employees reqs gap \<noteq> []"
  defines "chosen \<equiv> take 5 (match_staff str_lower employees reqs gap)"
      and "table' \<equiv> fst (auto_assign uuid did (match_staff str_lower employees reqs gap) table)"
  shows "filter (\<lambda>a. \<not> is_auto a) table' = filter (\<lambda>a. \<not> is_auto a) table
       \<and> filter is_auto table' = add_assignments uuid 0 did chosen
       \<and> length (filter is_auto table') = min 5 (length (match_staff str_lower employees reqs gap))
       \<and> snd (auto_assign uuid did (match_staff str_lower employees reqs gap) table)
           = min 5 (length (match_staff str_lower employees reqs gap))
       \<and> map asg_employee_id (filter is_auto table') = map staff_employee_id chosen
       \<and> map asg_match_score (filter is_auto table') = map (\<lambda>s. Some (match_score s)) chosen
       \<and> sorted (rev (map match_score chosen))
       \<and> map allocation_percent (filter is_auto table')
           = map (\<lambda>s. min (staff_availability_percent s) 100) chosen"
proof -
  have t: "table' = filter (\<lambda>a. \<not> is_auto a) table @ add_assignments uuid 0 did chosen"
    unfolding table'_def chosen_def is_auto_def using ne by (simp add: auto_assign_def)
  have n: "snd (auto_assign uuid did (match_staff str_lower employees reqs gap) table)
           = min 5 (length (match_staff str_lower employees reqs gap))"
    using ne by (simp add: auto_assign_def min.commute)
  have f1: "filter is_auto table' = add_assignments uuid 0 did chosen"
    unfolding t is_auto_def by (simp add: add_assignments_props)
  have f2: "filter (\<lambda>a. \<not> is_auto a) table' = filter (\<lambda>a. \<not> is_auto a) table"
    unfolding t is_auto_def by (simp add: add_assignments_props)
  have l: "length chosen = min 5 (length (match_staff str_lower employees reqs gap))"
    unfolding chosen_def by (simp add: min.commute)
  have s: "sorted (rev (map match_score chosen))"
    unfolding chosen_def take_map [symmetric]
    by (rule sorted_rev_take) (simp add: match_staff_eq sorted_sort_desc)
  show ?thesis
    unfolding f1 f2 using n l s by (simp add: add_assignments_props)
qed


text \<open>
  Claim C2 as stated fails: a record whose only overlap is with a strong area of the gap
  analysis, or with a requirement category of at most three characters, is ranked with
  score 1, although its intersection with the keyword set drawn from the requirements'
  texts and categories alone is empty.
\<close>

theorem match_staff_counterexample:
  "map match_score (match_staff lower [example_employee ''e1'' ''Dev'' [''Rust''] 80] [] example_gap) = [1]
   \<and> card (emp_terms lower (example_employee ''e1'' ''Dev'' [''Rust''] 80) \<inter> spec_required_keywords lower []) = 0
   \<and> map match_score (match_staff lower [example_employee ''e1'' ''Dev'' [''UI''] 80]
          [\<lparr>req_text = Some ''a ui'', req_category = Some ''UI''\<rparr>] no_gap) = [1]
   \<and> card (emp_terms lower (example_employee ''e1'' ''Dev'' [''UI''] 80)
          \<inter> spec_required_keywords lower [\<lparr>req_text = Some ''a ui'', req_category = Some ''UI''\<rparr>]) = 0"
  by code_simp

lemma example_ranking:
  "map (\<lambda>s. (staff_employee_id s, match_score s, staff_availability_percent s))
     (match_staff lower example_roster [] example_gap)
   = [(''e3'', 2, 120), (''e1'', 1, 80), (''e4'', 1, 50), (''e5'', 1, 100), (''e6'', 1, 100),
      (''e7'', 1, 100)]"
  by code_simp

theorem match_staff_ranking_witness:
  "map staff_employee_id (match_staff lower example_roster [] example_gap)
     = [''e3'', ''e1'', ''e4'', ''e5'', ''e6'', ''e7'']
   \<and> map match_score (match_staff lower example_roster [] example_gap) = [2, 1, 1, 1, 1, 1]
   \<and> sorted (rev (map match_score (match_staff lower example_roster [] example_gap)))"
proof -
  have a: "map staff_employee_id (match_staff lower example_roster [] example_gap)
     = [''e3'', ''e1'', ''e4'', ''e5'', ''e6'', ''e7'']"
    using arg_cong [OF example_ranking, of "map fst"] by (simp add: o_def)
  have b: "map match_score (match_staff lower example_roster [] example_gap) = [2, 1, 1, 1, 1, 1]"
    using arg_cong [OF example_ranking, of "map (fst \<circ> snd)"] by (simp add: o_def)
  have c: "sorted (rev (map match_score (match_staff lower example_roster [] example_gap)))"
    using match_staff_ranking [of lower example_roster "[]" example_gap] by blast
  show ?thesis using a b c by blast
qed

theorem auto_assign_policy_witness:
  "match_staff lower example_roster [] example_gap \<noteq> []
   \<and> map asg_employee_id (filter (\<lambda>a. asg_deal_id a = ''d1'' \<and> assigned_by a = ''auto'')
          (fst (auto_assign (\<lambda>n. ''id'') ''d1''
             (match_staff lower example_roster [] example_gap) example_table)))
       = [''e3'', ''e1'', ''e4'', ''e5'', ''e6'']
   \<and> map allocation_percent (filter (\<lambda>a. asg_deal_id a = ''d1'' \<and> assigned_by a = ''auto'')
          (fst (auto_assign (\<lambda>n. ''id'') ''d1''
             (match_staff lower example_roster [] example_gap) example_table)))
       = [100, 80, 50, 100, 100]
   \<and> snd (auto_assign (\<lambda>n. ''id'') ''d1''
          (match_staff lower example_roster [] example_gap) example_table) = 5"
proof -
  have ne: "match_staff lower example_roster [] example_gap \<noteq> []"
    using example_ranking by auto
  have a: "map staff_employee_id (take 5 (match_staff lower example_roster [] example_gap))
       = [''e3'', ''e1'', ''e4'', ''e5'', ''e6'']"
    using arg_cong [OF example_ranking, of "\<lambda>xs. map fst (take 5 xs)"]
    by (simp add: o_def take_map)
  have b: "map (\<lambda>s. min (staff_availability_percent s) 100)
             (take 5 (match_staff lower example_roster [] example_gap)) = [100, 80, 50, 100, 100]"
    using arg_cong [OF example_ranking, of "\<lambda>xs. map (\<lambda>p. min (snd (snd p)) 100) (take 5 xs)"]
    by (simp add: o_def take_map)
  have c: "length (match_staff lower example_roster [] example_gap) = 6"
    using arg_cong [OF example_ranking, of length] by simp
  have p: "map allocation_percent (filter (\<lambda>a. asg_deal_id a = ''d1'' \<and> assigned_by a = ''auto'')
          (fst (auto_assign (\<lambda>n. ''id'') ''d1''
             (match_staff lower example_roster [] example_gap) example_table)))
       = map (\<lambda>s. min (staff_availability_percent s) 100)
             (take 5 (match_staff lower example_roster [] example_gap))"
    and q: "snd (auto_assign (\<lambda>n. ''id'') ''d1''
          (match_staff lower example_roster [] example_gap) example_table)
       = min 5 (length (match_staff lower example_roster [] example_gap))"
    and r: "map asg_employee_id (filter (\<lambda>a. asg_deal_id a = ''d1'' \<and> assigned_by a = ''auto'')
          (fst (auto_assign (\<lambda>n. ''id'') ''d1''
             (match_staff lower example_roster [] example_gap) example_table)))
       = map staff_employee_id (take 5 (match_staff lower example_roster [] example_gap))"
    using auto_assign_policy [where str_lower = lower and uuid = "\<lambda>n. ''id''" and did = "''d1''"
        and table = example_table, OF ne]
    by blast+
  show ?thesis
    unfolding p q r a b c using ne by simp
qed


subsection \<open>Parse paths of the reasoning-service responses\<close>

lemma clamp_in_unit: "in_unit (py_max (Finite 0) (py_min (Finite 1) x))"
  by (cases x) (auto simp: py_max_def py_min_def)

lemma clamp_score_in_unit: "clamp_score raw = Inr s \<Longrightarrow> in_unit s"
  by (cases raw) (auto simp: clamp_score_def clamp_in_unit split: sum.splits)

lemma comply_try_in_unit:
  "comply_try loads draft result_text = Inr out \<Longrightarrow> in_unit (new_compliance_score out)"
  unfolding comply_try_def
  by (auto split: sum.splits if_splits dest: clamp_score_in_unit)

lemma comply_parse_in_unit:
  "in_unit (new_compliance_score (comply_parse str_exn loads draft result_text))"
  by (auto simp: comply_parse_def split: sum.splits dest: comply_try_in_unit)

lemma comply_parse_shape:
  "comply_current_step (comply_parse str_exn loads draft result_text) = ''comply''
   \<and> new_final_proposal (comply_parse str_exn loads draft result_text) = Some draft"
  unfolding comply_parse_def comply_try_def
  by (auto split: sum.splits if_splits)


lemma startswith_append: "startswith s (a @ b) \<Longrightarrow> startswith s a"
  by (induction s a rule: startswith.induct) auto

lemma contains_append: "contains (a @ b) s \<Longrightarrow> contains a s"
  by (induction s) (auto dest: startswith_append)

lemma sentiment_parse_not_object:
  assumes "\<not> contains fence result_text"
      and "loads (strip result_text) = Inr v"
      and "\<forall>items. v \<noteq> JObj items"
  shows "sentiment_parse loads result_text = Inl AttributeError"
proof -
  have nj: "\<not> contains fence_json result_text"
    using assms(1) contains_append [of fence "''json''" result_text]
    by (auto simp: fence_json_def)
  have g: "py_get v ''scores'' (JArr []) = Inl AttributeError"
    using assms(3) by (cases v) auto
  show ?thesis
    using assms(1,2) nj g by (simp add: sentiment_parse_def sentiment_try_def unfence_def)
qed

text \<open>The log line of the stage is part of the path: a response whose \<^verbatim>\<open>scores\<close> is
  \<^verbatim>\<open>null\<close> has no length, and \<^verbatim>\<open>TypeError\<close> leaves the stage as well.\<close>

lemma sentiment_parse_no_length:
  assumes "\<not> contains fence result_text"
      and "loads (strip result_text) = Inr (JObj items)"
      and "map_of items ''scores'' = Some JNull"
  shows "sentiment_parse loads result_text = Inl TypeError"
proof -
  have nj: "\<not> contains fence_json result_text"
    using assms(1) contains_append [of fence "''json''" result_text]
    by (auto simp: fence_json_def)
  show ?thesis
    using assms nj by (simp add: sentiment_parse_def sentiment_try_def unfence_def)
qed

text \<open>
  Claim C1 fails on the sentiment stage: the response text \<^verbatim>\<open>[]\<close> is valid JSON but not an
  object, \<^verbatim>\<open>result.get\<close> raises \<^verbatim>\<open>AttributeError\<close>, and the handler of the stage catches
  \<^verbatim>\<open>JSONDecodeError\<close> and \<^verbatim>\<open>IndexError\<close> only, so the exception leaves the stage. (The
  compliance stage catches every exception, see \<open>comply_parse_shape\<close>.)
\<close>

theorem sentiment_parse_escapes:
  "sentiment_parse (loads_table [(''[]'', JArr [])]) ''[]'' = Inl AttributeError
   \<and> sentiment_node (loads_table [(''[]'', JArr [])]) (\<lambda>state. Inr ''[]'')
        ((example_state 0 70 [])\<lparr>recent_communications := [example_communication]\<rparr>)
       = Inl AttributeError"
  by code_simp

text \<open>
  Claim C8 fails on the decision stage: the confidence score of the response is stored as
  parsed, with no clamp; a response whose \<^verbatim>\<open>confidence_score\<close> is 7 yields the confidence
  score 7, outside [0,1]. (The compliance stage does clamp, see \<open>comply_parse_in_unit\<close>.)
\<close>

theorem decide_parse_unclamped:
  "map_sum id new_confidence_score
     (decide_parse (loads_table [(confidence_text, JObj [(''confidence_score'', JInt 7)])])
        confidence_text) = Inr (JInt 7)
   \<and> \<not> json_in_unit (JInt 7)"
  by code_simp

subsection \<open>Stage graphs and the flows of the orchestrator\<close>

lemma monitoring_graph_simps:
  "entry_point (build_monitoring_graph a b c d) = Some ''sentiment''"
  "map_of (graph_nodes (build_monitoring_graph a b c d)) ''sentiment'' = Some a"
  "map_of (graph_nodes (build_monitoring_graph a b c d)) ''health'' = Some b"
  "map_of (graph_nodes (build_monitoring_graph a b c d)) ''alert'' = Some c"
  "map_of (graph_nodes (build_monitoring_graph a b c d)) ''recovery'' = Some d"
  "map_of (graph_edges (build_monitoring_graph a b c d)) ''sentiment'' = Some (Node ''health'')"
  "map_of (graph_edges (build_monitoring_graph a b c d)) ''health'' = Some (Node ''alert'')"
  "map_of (graph_edges (build_monitoring_graph a b c d)) ''alert'' = Some (Node ''recovery'')"
  "map_of (graph_edges (build_monitoring_graph a b c d)) ''recovery'' = Some END"
  by (simp_all add: build_monitoring_graph_def add_edge_def add_node_def set_entry_point_def
      empty_graph_def)

lemma stream_from_numeral:
  "stream_from (numeral k) g (Node name) state =
     (case map_of (graph_nodes g) name of
        None \<Rightarrow> ([], Some KeyError)
      | Some f \<Rightarrow>
         (case f state of
            Inl e \<Rightarrow> ([], Some e)
          | Inr out \<Rightarrow>
             (case stream_from (pred_numeral k) g
                     (case map_of (graph_edges g) name of None \<Rightarrow> END | Some t \<Rightarrow> t)
                     (AList.merge state out) of
                (events, err) \<Rightarrow> ((name, out) # events, err))))"
  by (simp add: numeral_eq_Suc)

lemma monitoring_graph_stream:
  "graph_stream (build_monitoring_graph a b c d) s =
     run_chain [(''sentiment'', a), (''health'', b), (''alert'', c), (''recovery'', d)] s"
  by (simp add: graph_stream_def monitoring_graph_simps recursion_limit_def stream_from_numeral
      split: sum.splits prod.splits)


lemma qualification_graph_simps:
  "entry_point (build_qualification_graph a b c d e) = Some ''ingest''"
  "map_of (graph_nodes (build_qualification_graph a b c d e)) ''ingest'' = Some a"
  "map_of (graph_nodes (build_qualification_graph a b c d e)) ''extract'' = Some b"
  "map_of (graph_nodes (build_qualification_graph a b c d e)) ''analyze'' = Some c"
  "map_of (graph_nodes (build_qualification_graph a b c d e)) ''match'' = Some d"
  "map_of (graph_nodes (build_qualification_graph a b c d e)) ''decide'' = Some e"
  "map_of (graph_edges (build_qualification_graph a b c d e)) ''ingest'' = Some (Node ''extract'')"
  "map_of (graph_edges (build_qualification_graph a b c d e)) ''extract'' = Some (Node ''analyze'')"
  "map_of (graph_edges (build_qualification_graph a b c d e)) ''analyze'' = Some (Node ''match'')"
  "map_of (graph_edges (build_qualification_graph a b c d e)) ''match'' = Some (Node ''decide'')"
  "map_of (graph_edges (build_qualification_graph a b c d e)) ''decide'' = Some END"
  by (simp_all add: build_qualification_graph_def add_edge_def add_node_def set_entry_point_def
      empty_graph_def)

lemma qualification_graph_stream:
  "graph_stream (build_qualification_graph a b c d e) s =
     run_chain [(''ingest'', a), (''extract'', b), (''analyze'', c), (''match'', d),
                (''decide'', e)] s"
  by (simp add: graph_stream_def qualification_graph_simps recursion_limit_def
      stream_from_numeral split: sum.splits prod.splits)

lemma proposal_graph_simps:
  "entry_point (build_proposal_graph a b c) = Some ''retrieve''"
  "map_of (graph_nodes (build_proposal_graph a b c)) ''retrieve'' = Some a"
  "map_of (graph_nodes (build_proposal_graph a b c)) ''generate'' = Some b"
  "map_of (graph_nodes (build_proposal_graph a b c)) ''comply'' = Some c"
  "map_of (graph_edges (build_proposal_graph a b c)) ''retrieve'' = Some (Node ''generate'')"
  "map_of (graph_edges (build_proposal_graph a b c)) ''generate'' = Some (Node ''comply'')"
  "map_of (graph_edges (build_proposal_graph a b c)) ''comply'' = Some END"
  by (simp_all add: build_proposal_graph_def add_edge_def add_node_def set_entry_point_def
      empty_graph_def)

lemma proposal_graph_stream:
  "graph_stream (build_proposal_graph a b c) s =
     run_chain [(''retrieve'', a), (''generate'', b), (''comply'', c)] s"
  by (simp add: graph_stream_def proposal_graph_simps recursion_limit_def
      stream_from_numeral split: sum.splits prod.splits)

lemma run_chain_names:
  "run_chain nodes s = (events, err) \<Longrightarrow>
     map fst events = take (length events) (map fst nodes)
     \<and> length events \<le> length nodes
     \<and> (err = None) = (length events = length nodes)"
proof (induction nodes arbitrary: s events err)
  case Nil
  then show ?case by auto
next
  case (Cons nf nodes)
  obtain n f where nf: "nf = (n, f)" by (cases nf)
  show ?case
  proof (cases "f s")
    case (Inl e)
    then show ?thesis using Cons.prems nf by auto
  next
    case (Inr out)
    obtain ev er where r: "run_chain nodes (AList.merge s out) = (ev, er)"
      by (cases "run_chain nodes (AList.merge s out)")
    from Cons.IH [OF r] Cons.prems nf Inr r show ?thesis by auto
  qed
qed

lemma run_chain_prefix:
  "prefix (map fst (fst (run_chain nodes s))) (map fst nodes)
   \<and> (snd (run_chain nodes s) = None) = (map fst (fst (run_chain nodes s)) = map fst nodes)"
proof -
  obtain events err where r: "run_chain nodes s = (events, err)"
    by (cases "run_chain nodes s")
  from run_chain_names [OF r]
  have a: "map fst events = take (length events) (map fst nodes)"
    and b: "length events \<le> length nodes"
    and c: "(err = None) = (length events = length nodes)" by blast+
  have p: "prefix (map fst events) (map fst nodes)"
    using a by (metis take_is_prefix)
  have q: "(length events = length nodes) = (map fst events = map fst nodes)"
    using a b by (metis length_map take_all order_refl)
  show ?thesis using r p q c by simp
qed

text \<open>
  Claim C9, as the code has it: once a flow hands its initial state to the stage graph, the
  stages run in the fixed order with no skipping. For every initial state and every choice
  of stage functions, the stages that complete are an initial segment of the flow's list,
  and they are the whole list, each stage once and in order, exactly when no stage raises.
\<close>

theorem stages_run_in_order:
  "prefix (map fst (fst (graph_stream (build_qualification_graph q1 q2 q3 q4 q5) s)))
      qualification_steps
   \<and> (snd (graph_stream (build_qualification_graph q1 q2 q3 q4 q5) s) = None)
       = (map fst (fst (graph_stream (build_qualification_graph q1 q2 q3 q4 q5) s))
            = qualification_steps)
   \<and> prefix (map fst (fst (graph_stream (build_proposal_graph p1 p2 p3) s))) proposal_steps
   \<and> (snd (graph_stream (build_proposal_graph p1 p2 p3) s) = None)
       = (map fst (fst (graph_stream (build_proposal_graph p1 p2 p3) s)) = proposal_steps)
   \<and> prefix (map fst (fst (graph_stream (build_monitoring_graph m1 m2 m3 m4) s)))
      monitoring_steps
   \<and> (snd (graph_stream (build_monitoring_graph m1 m2 m3 m4) s) = None)
       = (map fst (fst (graph_stream (build_monitoring_graph m1 m2 m3 m4) s))
            = monitoring_steps)"
  unfolding qualification_graph_stream proposal_graph_stream monitoring_graph_stream
  using run_chain_prefix [of "[(''ingest'', q1), (''extract'', q2), (''analyze'', q3),
            (''match'', q4), (''decide'', q5)]" s]
        run_chain_prefix [of "[(''retrieve'', p1), (''generate'', p2), (''comply'', p3)]" s]
        run_chain_prefix [of "[(''sentiment'', m1), (''health'', m2), (''alert'', m3),
            (''recovery'', m4)]" s]
  by (simp add: qualification_steps_def proposal_steps_def monitoring_steps_def)


lemma step_index_nth:
  "distinct steps \<Longrightarrow> i < length steps \<Longrightarrow> step_index steps (steps ! i) = int i + 1"
proof (induction steps arbitrary: i)
  case Nil
  then show ?case by simp
next
  case (Cons a steps)
  show ?case
  proof (cases i)
    case 0
    then show ?thesis by simp
  next
    case (Suc j)
    then have j: "j < length steps" using Cons.prems by simp
    then have m: "steps ! j \<in> set steps" by simp
    then have ne: "a \<noteq> steps ! j" using Cons.prems by auto
    show ?thesis using Suc ne m Cons.IH [of j] Cons.prems j by simp
  qed
qed

lemma step_index_take:
  "distinct steps \<Longrightarrow> k \<le> length steps \<Longrightarrow>
     map (step_index steps) (take k steps) = map (\<lambda>i. int i + 1) [0..<k]"
  by (rule nth_equalityI) (auto simp: step_index_nth)

lemma run_graph_sync_chain:
  assumes g: "graph_stream g s = run_chain nodes s"
      and st: "steps = map fst nodes"
      and d: "distinct steps"
      and r: "run_graph_sync g s steps msgs tid n = (stored, res)"
  shows "map reported_step_number stored = map (\<lambda>i. int i + 1) [0..<length stored]
       \<and> (\<forall>p \<in> set stored. total_steps (snd p) = Some n \<and> status (snd p) = ''processing''
                            \<and> fst p = Stored)
       \<and> ((\<exists>x. res = Inr x) = (length stored = length steps))
       \<and> map (step \<circ> snd) stored = take (length stored) steps"
proof -
  obtain events err where c: "run_chain nodes s = (events, err)"
    by (cases "run_chain nodes s")
  from run_chain_names [OF c]
  have a: "map fst events = take (length events) steps"
    and b: "length events \<le> length steps"
    and e: "(err = None) = (length events = length steps)"
    unfolding st by simp_all
  have l: "length stored = length events"
    using r g c by (auto simp: run_graph_sync_def)
  have sn: "map reported_step_number stored = map (step_index steps) (map fst events)"
    using r g c by (auto simp: run_graph_sync_def reported_step_number_def get_default_def)
  have p1: "map reported_step_number stored = map (\<lambda>i. int i + 1) [0..<length stored]"
    unfolding sn a l using step_index_take [OF d b] .
  have p2: "\<forall>p \<in> set stored. total_steps (snd p) = Some n \<and> status (snd p) = ''processing''
                            \<and> fst p = Stored"
    using r g c by (auto simp: run_graph_sync_def)
  have p3: "(\<exists>x. res = Inr x) = (length stored = length steps)"
    using r g c e l by (auto simp: run_graph_sync_def split: option.splits)
  have p4: "map (step \<circ> snd) stored = take (length stored) steps"
  proof -
    have "map (step \<circ> snd) stored = map fst events"
      using r g c by (auto simp: run_graph_sync_def case_prod_beta)
    then show ?thesis using a l by simp
  qed
  show ?thesis using p1 p2 p3 p4 by blast
qed

lemma finish_flow_cases:
  "finish_flow str_exn persist tid n done res = []
   \<or> (\<exists>m. finish_flow str_exn persist tid n done res
          = [send_update tid ''error'' 0 n ''failed'' m None])
   \<or> ((\<exists>x. res = Inr x) \<and>
      (\<exists>summary. finish_flow str_exn persist tid n done res
          = [send_update tid ''complete'' n n ''completed'' done (Some summary)]))"
  by (auto simp: finish_flow_def split: sum.splits)

lemma sorted_stage_numbers:
  "1 \<le> k \<Longrightarrow> sorted ((1::int) # map (\<lambda>i. int i + 1) [0..<k] @ [int k])"
  by (auto simp: sorted_append sorted_map intro!: sorted_wrt_mono_rel [of _ "(\<le>)"])

lemma flow_trace_ok_run:
  assumes sn: "map reported_step_number stored = map (\<lambda>i. int i + 1) [0..<length stored]"
      and al: "\<forall>p \<in> set stored. total_steps (snd p) = Some n \<and> status (snd p) = ''processing''
                            \<and> fst p = Stored"
      and rs: "(\<exists>x. res = Inr x) \<longrightarrow> int (length stored) = n"
      and n1: "1 \<le> n"
  shows "flow_trace_ok n (send_update tid stp 1 n ''processing'' msg None # stored
            @ finish_flow str_exn persist tid n done res)"
proof -
  let ?pre = "send_update tid stp 1 n ''processing'' msg None"
  have lp: "status (snd (last (?pre # stored))) = ''processing''"
    using al by (cases stored rule: rev_cases) (auto simp: send_update_def)
  consider (none) "finish_flow str_exn persist tid n done res = []"
    | (failed) m where "finish_flow str_exn persist tid n done res
          = [send_update tid ''error'' 0 n ''failed'' m None]"
    | (completed) summary where "\<exists>x. res = Inr x"
        "finish_flow str_exn persist tid n done res
          = [send_update tid ''complete'' n n ''completed'' done (Some summary)]"
    using finish_flow_cases [of str_exn persist tid n "done" res] by blast
  then show ?thesis
  proof cases
    case none
    then show ?thesis using lp al by (auto simp: flow_trace_ok_def send_update_def)
  next
    case failed
    then show ?thesis using al by (auto simp: flow_trace_ok_def send_update_def)
  next
    case completed
    then have k: "int (length stored) = n" using rs by blast
    have "sorted (map reported_step_number (?pre # stored
            @ [send_update tid ''complete'' n n ''completed'' done (Some summary)]))"
      using sorted_stage_numbers [of "length stored"] k n1
      by (simp add: sn reported_step_number_def send_update_def get_default_def)
    then show ?thesis using completed al
      by (auto simp: flow_trace_ok_def send_update_def)
  qed
qed

lemma flow_trace_ok_error:
  "flow_trace_ok n [send_update tid ''error'' 0 n ''failed'' m None]"
  by (simp add: flow_trace_ok_def send_update_def)


lemma qualification_flow_ok:
  "flow_trace_ok 5
     (run_qualification_flow str_exn (build_qualification_graph q1 q2 q3 q4 q5) persist tid did
        deal_row processed_docs document_id specific_doc employees company_profile)"
proof -
  have main: "flow_trace_ok 5
      (send_update tid ''ingest'' 1 5 ''processing'' msg None
       # (case run_graph_sync (build_qualification_graph q1 q2 q3 q4 q5) s0
                 qualification_steps qualification_messages tid 5 of
            (stored, res) \<Rightarrow>
               stored @ finish_flow str_exn persist tid 5 ''Qualification complete'' res))"
    for msg s0
  proof -
    obtain stored res where r: "run_graph_sync (build_qualification_graph q1 q2 q3 q4 q5) s0
                 qualification_steps qualification_messages tid 5 = (stored, res)"
      by (cases "run_graph_sync (build_qualification_graph q1 q2 q3 q4 q5) s0
                 qualification_steps qualification_messages tid 5")
    note c = run_graph_sync_chain [OF qualification_graph_stream _ _ r]
    have c': "map reported_step_number stored = map (\<lambda>i. int i + 1) [0..<length stored]"
      "\<forall>p \<in> set stored. total_steps (snd p) = Some 5 \<and> status (snd p) = ''processing''
                            \<and> fst p = Stored"
      "(\<exists>x. res = Inr x) = (length stored = length qualification_steps)"
      using c by (simp_all add: qualification_steps_def)
    have rs: "(\<exists>x. res = Inr x) \<longrightarrow> int (length stored) = 5"
      using c'(3) by (simp add: qualification_steps_def)
    show ?thesis
      unfolding r using flow_trace_ok_run [OF c'(1) c'(2) rs] by simp
  qed
  show ?thesis
    unfolding run_qualification_flow_def Let_def
    using main flow_trace_ok_error [of 5 tid]
    by (simp split: option.splits)
qed

lemma proposal_flow_ok:
  "flow_trace_ok 3
     (run_proposal_flow str_exn (build_proposal_graph p1 p2 p3) persist tid did
        deal_row requirements assignments company_profile)"
proof -
  have main: "flow_trace_ok 3
      (send_update tid ''retrieve'' 1 3 ''processing'' msg None
       # (case run_graph_sync (build_proposal_graph p1 p2 p3) s0
                 proposal_steps proposal_messages tid 3 of
            (stored, res) \<Rightarrow>
               stored @ finish_flow str_exn persist tid 3 ''Proposal generated'' res))"
    for msg s0
  proof -
    obtain stored res where r: "run_graph_sync (build_proposal_graph p1 p2 p3) s0
                 proposal_steps proposal_messages tid 3 = (stored, res)"
      by (cases "run_graph_sync (build_proposal_graph p1 p2 p3) s0
                 proposal_steps proposal_messages tid 3")
    note c = run_graph_sync_chain [OF proposal_graph_stream _ _ r]
    have c': "map reported_step_number stored = map (\<lambda>i. int i + 1) [0..<length stored]"
      "\<forall>p \<in> set stored. total_steps (snd p) = Some 3 \<and> status (snd p) = ''processing''
                            \<and> fst p = Stored"
      "(\<exists>x. res = Inr x) = (length stored = length proposal_steps)"
      using c by (simp_all add: proposal_steps_def)
    have rs: "(\<exists>x. res = Inr x) \<longrightarrow> int (length stored) = 3"
      using c'(3) by (simp add: proposal_steps_def)
    show ?thesis
      unfolding r using flow_trace_ok_run [OF c'(1) c'(2) rs] by simp
  qed
  show ?thesis
    unfolding run_proposal_flow_def
    using main flow_trace_ok_error [of 3 tid]
    by (simp split: option.splits)
qed

lemma flow_trace_ok_early:
  "flow_trace_ok 4
     [send_update tid ''sentiment'' 1 4 ''processing'' m None,
      send_update tid ''complete'' 4 4 ''completed'' m' dat]"
  by (simp add: flow_trace_ok_def send_update_def reported_step_number_def get_default_def)

lemma monitoring_flow_ok:
  "flow_trace_ok 4
     (run_monitoring_flow str_exn (build_monitoring_graph m1 m2 m3 m4) persist tid did
        deal_row after_filter oauth get_gmail_client)"
proof -
  have main: "flow_trace_ok 4
      (send_update tid ''sentiment'' 1 4 ''processing'' msg None
       # (case run_graph_sync (build_monitoring_graph m1 m2 m3 m4) s0
                 monitoring_steps monitoring_messages tid 4 of
            (stored, res) \<Rightarrow>
               stored @ finish_flow str_exn persist tid 4 ''Monitoring complete'' res))"
    for msg s0
  proof -
    obtain stored res where r: "run_graph_sync (build_monitoring_graph m1 m2 m3 m4) s0
                 monitoring_steps monitoring_messages tid 4 = (stored, res)"
      by (cases "run_graph_sync (build_monitoring_graph m1 m2 m3 m4) s0
                 monitoring_steps monitoring_messages tid 4")
    note c = run_graph_sync_chain [OF monitoring_graph_stream _ _ r]
    have c': "map reported_step_number stored = map (\<lambda>i. int i + 1) [0..<length stored]"
      "\<forall>p \<in> set stored. total_steps (snd p) = Some 4 \<and> status (snd p) = ''processing''
                            \<and> fst p = Stored"
      "(\<exists>x. res = Inr x) = (length stored = length monitoring_steps)"
      using c by (simp_all add: monitoring_steps_def)
    have rs: "(\<exists>x. res = Inr x) \<longrightarrow> int (length stored) = 4"
      using c'(3) by (simp add: monitoring_steps_def)
    show ?thesis
      unfolding r using flow_trace_ok_run [OF c'(1) c'(2) rs] by simp
  qed
  show ?thesis
  proof (cases deal_row)
    case None
    then show ?thesis
      using flow_trace_ok_error [of 4 tid] by (simp add: run_monitoring_flow_def)
  next
    case (Some d)
    obtain comms reason where f: "fetch_comms str_exn d after_filter oauth get_gmail_client
        = (comms, reason)"
      by (cases "fetch_comms str_exn d after_filter oauth get_gmail_client")
    show ?thesis
      unfolding run_monitoring_flow_def Some option.case f prod.case
      using main flow_trace_ok_early by (cases "comms = []") simp_all
  qed
qed

text \<open>
  Claim C6, as the code has it: in every run of the three flows each update carries the
  fixed stage count of the flow (5, 3, 4); when the run ends completed, the last update
  has stage number equal to that count and the stage numbers never decrease along the run
  (they are not strictly increasing); when the run ends failed, the last update has stage
  number 0.
\<close>

theorem flows_progress:
  "flow_trace_ok 5
     (run_qualification_flow str_exn (build_qualification_graph q1 q2 q3 q4 q5) persist tid did
        deal_row processed_docs document_id specific_doc employees company_profile)
   \<and> flow_trace_ok 3
     (run_proposal_flow str_exn (build_proposal_graph p1 p2 p3) persist tid did
        deal_row requirements assignments company_profile)
   \<and> flow_trace_ok 4
     (run_monitoring_flow str_exn (build_monitoring_graph m1 m2 m3 m4) persist tid did
        deal_row after_filter oauth get_gmail_client)"
  by (intro conjI qualification_flow_ok proposal_flow_ok monitoring_flow_ok)


text \<open>
  Claim C6 as stated fails: in a successful qualification run the stage numbers are
  1, 1, 2, 3, 4, 5, 5 (the update sent before the graph and the update of the first stage
  both carry 1, the update of the last stage and the completed update both carry 5), and in
  a run whose second stage raises the updates sent carry 1 and then 0.
\<close>

theorem flows_progress_counterexample:
  "map reported_step_number (example_qualification_run (ok_node ''extract''))
     = [1, 1, 2, 3, 4, 5, 5]
   \<and> status (snd (last (example_qualification_run (ok_node ''extract'')))) = ''completed''
   \<and> \<not> sorted_wrt (<) (map reported_step_number (example_qualification_run (ok_node ''extract'')))
   \<and> map reported_step_number
        (filter (\<lambda>p. fst p = Sent) (example_qualification_run bad_node)) = [1, 0]"
  by code_simp

theorem flows_progress_witness:
  "status (snd (last (example_qualification_run (ok_node ''extract'')))) = ''completed''
   \<and> step_number (snd (last (example_qualification_run (ok_node ''extract'')))) = Some 5
   \<and> sorted (map reported_step_number (example_qualification_run (ok_node ''extract'')))
   \<and> list_all (\<lambda>p. total_steps (snd p) = Some 5)
        (example_qualification_run (ok_node ''extract''))"
proof -
  have c: "status (snd (last (example_qualification_run (ok_node ''extract'')))) = ''completed''"
    by code_simp
  have "flow_trace_ok 5 (example_qualification_run (ok_node ''extract''))"
    unfolding example_qualification_run_def by (rule flows_progress [THEN conjunct1])
  then show ?thesis using c by (simp add: flow_trace_ok_def list_all_iff)
qed

lemma fetch_comms_reason:
  "fst (fetch_comms str_exn d after_filter oauth get_gmail_client) = [] \<Longrightarrow>
     \<exists>reason. snd (fetch_comms str_exn d after_filter oauth get_gmail_client) = Some reason
              \<and> reason \<noteq> []"
  unfolding fetch_comms_def Let_def
  by (auto split: option.splits sum.splits if_splits)

text \<open>
  Claim C7: a monitoring run whose fetch yields no communication ends completed and never
  failed, runs no stage, reports zero alerts generated and carries a reason for the missing
  data in the summary of its last update.
\<close>

theorem monitoring_no_communications:
  assumes "fst (fetch_comms str_exn d after_filter oauth get_gmail_client) = []"
  shows "map (status \<circ> snd)
           (run_monitoring_flow str_exn graph persist tid did (Some d) after_filter oauth
              get_gmail_client) = [''processing'', ''completed'']
       \<and> stages_run (run_monitoring_flow str_exn graph persist tid did (Some d) after_filter
              oauth get_gmail_client) = []
       \<and> message (snd (last (run_monitoring_flow str_exn graph persist tid did (Some d)
              after_filter oauth get_gmail_client)))
           = ''Monitoring complete '' @ em_dash @ '' no relevant emails found''
       \<and> (\<exists>reason. reason \<noteq> []
            \<and> data (snd (last (run_monitoring_flow str_exn graph persist tid did (Some d)
                  after_filter oauth get_gmail_client)))
              = Some [(''health_score'', JInt (health_or_70 d)),
                      (''sentiment'', JFloat (Finite 0)),
                      (''alerts_generated'', JInt 0),
                      (''no_emails_reason'', JStr reason)])"
proof -
  obtain comms r where f: "fetch_comms str_exn d after_filter oauth get_gmail_client = (comms, r)"
    by (cases "fetch_comms str_exn d after_filter oauth get_gmail_client")
  have e: "comms = []" using assms f by simp
  obtain reason where r: "r = Some reason" "reason \<noteq> []"
    using fetch_comms_reason [OF assms] f by auto
  show ?thesis
    unfolding run_monitoring_flow_def option.case f prod.case
    using e r
    by (simp add: send_update_def stages_run_def json_opt_str_def get_default_def)
qed

theorem monitoring_no_communications_witness:
  "fst (fetch_comms (\<lambda>e. ''error'') example_deal_row ''2025/01/01'' None
          (\<lambda>user_id. Inr (Some (\<lambda>query max_results. Inr [])))) = []
   \<and> map (status \<circ> snd) (example_monitoring_run None []) = [''processing'', ''completed'']
   \<and> map_of (get_default [] (data (snd (last (example_monitoring_run None []))))) ''alerts_generated''
       = Some (JInt 0)"
proof -
  have h: "fst (fetch_comms (\<lambda>e. ''error'') example_deal_row ''2025/01/01'' None
          (\<lambda>user_id. Inr (Some (\<lambda>query max_results. Inr [])))) = []"
    by (simp add: fetch_comms_def)
  from monitoring_no_communications [OF h,
      where graph = "build_monitoring_graph (ok_node ''sentiment'') (ok_node ''health'')
          (ok_node ''alert'') (ok_node ''recovery'')"
        and persist = "\<lambda>result. Inr []" and tid = "''t1''" and did = "''d1''"]
  show ?thesis
    using h unfolding example_monitoring_run_def
    by (auto simp: get_default_def)
qed

text \<open>A run whose deal cannot be resolved ends failed before the graph is started and
  executes no stage.\<close>

lemma deal_not_found_no_stage:
  "stages_run (run_qualification_flow str_exn graph persist tid did None processed_docs
                 document_id specific_doc employees company_profile) = []"
  "stages_run (run_proposal_flow str_exn graph persist tid did None requirements assignments
                 company_profile) = []"
  "stages_run (run_monitoring_flow str_exn graph persist tid did None after_filter oauth
                 get_gmail_client) = []"
  by (simp_all add: run_qualification_flow_def run_proposal_flow_def run_monitoring_flow_def
        stages_run_def send_update_def)

text \<open>
  Claim C9 as stated fails for a monitoring run with no communications: the flow finishes
  early and completed without running any stage of its list (with one e-mail, all four
  stages run).
\<close>

theorem no_communications_no_stage:
  "stages_run (example_monitoring_run (Some ''u1'') []) = []
   \<and> stages_run (example_monitoring_run (Some ''u1'') []) \<noteq> monitoring_steps
   \<and> map (status \<circ> snd) (example_monitoring_run (Some ''u1'') [])
       = [''processing'', ''completed'']
   \<and> stages_run (example_monitoring_run (Some ''u1'') [example_email]) = monitoring_steps"
  by code_simp


end
